theory Spec2Isabelle
  imports Main "HOL-Library.Char_ord" "HOL-Library.List_Lexorder"
begin

section \<open>Python values, exceptions and dictionaries\<close>

text \<open>
  Exceptions are values. \<open>InvalidImplementation\<close> is declared in \<^verbatim>\<open>interface.py\<close> as a
  subclass of \<open>TypeError\<close>, so an \<^verbatim>\<open>except TypeError\<close> clause catches both.
\<close>

datatype error =
    TypeError string
  | InvalidImplementation string
  | AttributeError string
  | KeyError string
  | AssertionError string

fun isinstance_TypeError :: "error \<Rightarrow> bool" where
  "isinstance_TypeError (TypeError _) = True"
| "isinstance_TypeError (InvalidImplementation _) = True"
| "isinstance_TypeError _ = False"

fun isinstance_InvalidImplementation :: "error \<Rightarrow> bool" where
  "isinstance_InvalidImplementation (InvalidImplementation _) = True"
| "isinstance_InvalidImplementation _ = False"

text \<open>\<open>str(e)\<close> of an exception built from one message argument is that message.\<close>

fun str_error :: "error \<Rightarrow> string" where
  "str_error (TypeError m) = m"
| "str_error (InvalidImplementation m) = m"
| "str_error (AttributeError m) = m"
| "str_error (KeyError m) = m"
| "str_error (AssertionError m) = m"

text \<open>
  A Python \<open>dict\<close> keeps insertion order and has one entry per key: an association list,
  where storing under an existing key replaces the value in place and a new key goes to
  the end.
\<close>

type_synonym ('k, 'v) dict = "('k \<times> 'v) list"

definition dict_get :: "('k, 'v) dict \<Rightarrow> 'k \<Rightarrow> 'v option" where
  "dict_get d k = map_of d k"

fun dict_set :: "('k, 'v) dict \<Rightarrow> 'k \<Rightarrow> 'v \<Rightarrow> ('k, 'v) dict" where
  "dict_set [] k v = [(k, v)]"
| "dict_set ((k', v') # d) k v =
     (if k' = k then (k, v) # d else (k', v') # dict_set d k v)"

definition keys :: "('k, 'v) dict \<Rightarrow> 'k list" where
  "keys d = map fst d"

definition newline :: string where
  "newline = [CHR 0x0A]"

text \<open>\<open>sep.join(xs)\<close>.\<close>

fun join :: "string \<Rightarrow> string list \<Rightarrow> string" where
  "join sep [] = []"
| "join sep [x] = x"
| "join sep (x # y # ys) = x @ sep @ join sep (y # ys)"

text \<open>
  \<open>repr\<close> of a string, as the \<^verbatim>\<open>{attr!r}\<close> format field gives it. Member names are
  identifiers, which \<open>repr\<close> puts between single quotes with nothing escaped.
\<close>

definition repr_str :: "string \<Rightarrow> string" where
  "repr_str s = [CHR 0x27] @ s @ [CHR 0x27]"

section \<open>functional.py\<close>

definition complement :: "('a \<Rightarrow> bool) \<Rightarrow> 'a \<Rightarrow> bool" where
  "complement f x = (\<not> f x)"

definition valfilter :: "('v \<Rightarrow> bool) \<Rightarrow> ('k, 'v) dict \<Rightarrow> ('k, 'v) dict" where
  "valfilter f d = filter (\<lambda>(k, v). f v) d"

text \<open>
  Modelled from the spec: \<open>keyfilter\<close> is imported by \<^verbatim>\<open>interface.py\<close> from
  \<^verbatim>\<open>functional.py\<close>, whose text does not define it. The spec lists it among the
  helpers that filter a mapping by a predicate; it is \<open>valfilter\<close> with the predicate on
  the key.
\<close>

definition keyfilter :: "('k \<Rightarrow> bool) \<Rightarrow> ('k, 'v) dict \<Rightarrow> ('k, 'v) dict" where
  "keyfilter f d = filter (\<lambda>(k, v). f k) d"

section \<open>Canonical call shapes (the signature normalizer)\<close>

datatype param_kind = Positional | VarPositional | KeywordOnly | VarKeyword

record parameter =
  pname :: string
  pkind :: param_kind
  has_default :: bool

text \<open>
  Modelled from the spec: the canonical call shape of \<^verbatim>\<open>typed_signature.py\<close> (not among
  the sources) is the ordered list of parameters, each with its name, whether it is
  positional, keyword-only or variadic, and whether it has a default value. The implicit
  leading self/owner parameter, which the compatibility predicate ignores on both sides,
  is not listed.
\<close>

type_synonym signature = "parameter list"

text \<open>
  Modelled from the spec: the kind of a member is a closed tagged variant (plain
  function, class-level function, static function, computed property).
\<close>

datatype member_kind = Function | ClassMethod | StaticMethod | Property

record typed_signature =
  sig_type :: member_kind
  sig_signature :: signature

text \<open>
  The values found in a class body: a callable member of some kind with its call shape,
  a \<open>default(implementation)\<close> wrapper (\<^verbatim>\<open>default.py\<close>: the implementation plus the
  marker that it is a fallback), a string (such as a \<open>__doc__\<close>), or a value of some
  other type, given by the name of that type; the last two have no call shape.
\<close>

datatype pyval =
    Callable member_kind signature
  | Default pyval
  | Str string
  | Plain string

fun name_of_kind :: "member_kind \<Rightarrow> string" where
  "name_of_kind Function = ''function''"
| "name_of_kind ClassMethod = ''classmethod''"
| "name_of_kind StaticMethod = ''staticmethod''"
| "name_of_kind Property = ''property''"

text \<open>\<open>getname(type(v))\<close>.\<close>

fun name_of_type :: "pyval \<Rightarrow> string" where
  "name_of_type (Callable k s) = name_of_kind k"
| "name_of_type (Default v) = ''default''"
| "name_of_type (Str s) = ''str''"
| "name_of_type (Plain tn) = tn"

fun isinstance_default :: "pyval \<Rightarrow> bool" where
  "isinstance_default (Default v) = True"
| "isinstance_default _ = False"

text \<open>
  Modelled from the spec: \<open>TypedSignature(obj)\<close> of \<^verbatim>\<open>typed_signature.py\<close> (not among
  the sources) gives the canonical call shape and the kind of a callable-like value; a
  default descriptor has the shape of the implementation it wraps; for a value that is
  not callable-like the derivation fails, with the \<open>TypeError\<close> that
  \<open>InterfaceMeta.__new__\<close> catches.
\<close>

fun TypedSignature :: "pyval \<Rightarrow> error + typed_signature" where
  "TypedSignature (Callable k s) = Inr \<lparr>sig_type = k, sig_signature = s\<rparr>"
| "TypedSignature (Default v) = TypedSignature v"
| "TypedSignature v =
     Inl (TypeError (repr_str (name_of_type v) @ '' object is not a callable object''))"

text \<open>
  Modelled from the spec: the text of a call shape in a diagnostic. The spec leaves the
  textual formatting of signatures out of scope; here a parameter is written by its name,
  with the variadic markers and \<open>=...\<close> for a default.
\<close>

fun str_parameter :: "parameter \<Rightarrow> string" where
  "str_parameter p =
     (case pkind p of VarPositional \<Rightarrow> ''*'' | VarKeyword \<Rightarrow> ''**'' | _ \<Rightarrow> '''')
     @ pname p @ (if has_default p then ''=...'' else '''')"

definition str_signature :: "signature \<Rightarrow> string" where
  "str_signature s = ''('' @ join '', '' (map str_parameter s) @ '')''"

definition str_typed_signature :: "typed_signature \<Rightarrow> string" where
  "str_typed_signature ts = str_signature (sig_signature ts)"

text \<open>
  Modelled from the spec: \<open>issubclass\<close> on member kinds. The four kinds are unrelated
  types, so an implementation's kind is a subtype of the declared kind when it is the
  same kind.
\<close>

definition issubclass_kind :: "member_kind \<Rightarrow> member_kind \<Rightarrow> bool" where
  "issubclass_kind impl iface = (impl = iface)"

definition positionals :: "signature \<Rightarrow> parameter list" where
  "positionals s = filter (\<lambda>p. pkind p = Positional) s"

definition keyword_only :: "signature \<Rightarrow> parameter list" where
  "keyword_only s = filter (\<lambda>p. pkind p = KeywordOnly) s"

text \<open>
  Modelled from the spec: \<open>compatible(impl_sig, iface_sig)\<close> of \<^verbatim>\<open>typecheck.py\<close> (not
  among the sources), after section 4.2 of the spec: (a) the same fixed positional
  parameter names in the same order; (b), (d) every keyword-only parameter the interface
  requires is present by name in the implementation; (c) what the implementation declares
  in addition is optional or a variadic capture.
\<close>

definition compatible :: "signature \<Rightarrow> signature \<Rightarrow> bool" where
  "compatible impl iface =
     (let n = length (positionals iface) in
        map pname (take n (positionals impl)) = map pname (positionals iface)
      \<and> list_all has_default (drop n (positionals impl))
      \<and> list_all (\<lambda>p. has_default p \<or> pname p \<in> set (map pname (keyword_only impl)))
           (keyword_only iface)
      \<and> list_all (\<lambda>q. has_default q \<or> pname q \<in> set (map pname (keyword_only iface)))
           (keyword_only impl))"

section \<open>Types and interfaces\<close>

text \<open>
  An interface is the class object that \<open>InterfaceMeta.__new__\<close> returns: its identity,
  its \<open>__name__\<close>, \<open>vars(cls)\<close>, the \<open>vars\<close> of the classes that follow it in its
  \<open>mro()\<close> before \<open>Interface\<close>, and the two attributes the metaclass computes, which are
  kept in fields of their own. Python compares and hashes classes by identity, which is
  part of the record.
\<close>

record interface =
  iface_id :: nat
  iface_name :: string
  iface_vars :: "(string, pyval) dict"
  iface_ancestors :: "(string, pyval) dict list"
  signatures :: "(string, typed_signature) dict"
  defaults :: "(string, pyval) dict"

text \<open>
  The objects that can be passed to \<open>implements\<close>: a class under \<open>Interface\<close>, some other
  class, or an object that is no class; the last two with the text \<open>%s\<close> prints for them.
  They are hashable, as every class is. (For an unhashable argument \<open>frozenset\<close> raises
  its own \<open>TypeError\<close> before the memo is consulted.)
\<close>

datatype pyobj =
    IfaceObj interface
  | ClassObj string
  | NonClassObj string

text \<open>
  A \<open>frozenset\<close> is the list of its elements, without repetition, in the order in which
  iteration yields them; two of them are equal when they have the same elements. Python
  iterates in the order of the hashes; here the order comes from the arguments, so that
  a statement about all argument lists is one about every order of iteration.
\<close>

type_synonym frozenset = "pyobj list"

definition frozenset :: "pyobj list \<Rightarrow> frozenset" where
  "frozenset xs = remdups xs"

definition frozenset_eq :: "frozenset \<Rightarrow> frozenset \<Rightarrow> bool" where
  "frozenset_eq a b = (set a = set b)"

datatype metaclass = Meta_type | Meta_ImplementsMeta

text \<open>
  A class object: its identity, \<open>__name__\<close>, \<open>vars(t)\<close>, the classes after it in
  \<open>t.mro()\<close> (the linearization is the runtime's), its metaclass, and the \<open>_interfaces\<close>
  entry of \<open>vars(t)\<close>, kept in a field of its own (absent until \<open>ImplementsMeta.__init__\<close>
  stores it). \<open>vars(t)\<close> is the class body with what \<open>setattr\<close> adds; the bookkeeping
  entries that \<open>type.__new__\<close> puts there by itself (\<open>__module__\<close>, \<open>__dict__\<close>,
  \<open>__weakref__\<close>) are left out.
\<close>

datatype pytype =
  PyType (type_id: nat) (type_name: string) (type_vars: "(string, pyval) dict")
    (ancestors: "pytype list") (type_meta: metaclass) (own_interfaces: "frozenset option")

definition mro :: "pytype \<Rightarrow> pytype list" where
  "mro t = t # ancestors t"

definition is_a_ImplementsMeta :: "pytype \<Rightarrow> bool" where
  "is_a_ImplementsMeta t = (type_meta t = Meta_ImplementsMeta)"

section \<open>interface.py\<close>

definition CLASS_ATTRIBUTE_WHITELIST :: "string list" where
  "CLASS_ATTRIBUTE_WHITELIST =
     [''__doc__'', ''__module__'', ''__name__'', ''__qualname__'', ''__weakref__'']"

definition is_interface_field_name :: "string \<Rightarrow> bool" where
  "is_interface_field_name = complement (\<lambda>k. k \<in> set CLASS_ATTRIBUTE_WHITELIST)"

fun static_get_type_attr_loop :: "pytype list \<Rightarrow> string \<Rightarrow> error + pyval" where
  "static_get_type_attr_loop [] name = Inl (AttributeError name)"
| "static_get_type_attr_loop (ty # rest) name =
     (case dict_get (type_vars ty) name of
        Some v \<Rightarrow> Inr v
      | None \<Rightarrow> static_get_type_attr_loop rest name)"

definition static_get_type_attr :: "pytype \<Rightarrow> string \<Rightarrow> error + pyval" where
  "static_get_type_attr t name = static_get_type_attr_loop (mro t) name"

subsection \<open>InterfaceMeta.__new__\<close>

definition couldnt_parse :: "string \<Rightarrow> string \<Rightarrow> pyval \<Rightarrow> string" where
  "couldnt_parse name k v =
     ''Couldn't parse signature for field '' @ name @ ''.'' @ k @ '' of type ''
     @ name_of_type v @ ''.''"

text \<open>
  The loop over the fields of the class body. The first field whose signature cannot be
  derived ends it with the \<open>TypeError\<close> raised from the caught one.
\<close>

fun declare_fields ::
  "string \<Rightarrow> (string, pyval) dict \<Rightarrow> (string, typed_signature) dict \<Rightarrow> (string, pyval) dict
   \<Rightarrow> error + ((string, typed_signature) dict \<times> (string, pyval) dict)" where
  "declare_fields name [] sigs dflts = Inr (sigs, dflts)"
| "declare_fields name ((k, v) # rest) sigs dflts =
     (case TypedSignature v of
        Inl e \<Rightarrow>
          (if isinstance_TypeError e then Inl (TypeError (couldnt_parse name k v))
           else Inl e)
      | Inr s \<Rightarrow>
          declare_fields name rest (dict_set sigs k s)
            (if isinstance_default v then dict_set dflts k v else dflts))"

text \<open>
  \<open>oid\<close> is the identity the runtime gives the new class object. \<open>bases\<close> only goes to
  \<open>type.__new__\<close>, which makes the class with \<open>clsdict\<close> as its \<open>vars\<close>; it is given by
  the \<open>vars\<close> of the classes that it puts behind the new class in the \<open>mro()\<close>, up to
  \<open>Interface\<close> (the linearization is the runtime's). The entries \<open>_signatures\<close> and
  \<open>_defaults\<close> that the metaclass stores in \<open>clsdict\<close> are the two fields of the record.
\<close>

definition InterfaceMeta_new ::
  "nat \<Rightarrow> string \<Rightarrow> (string, pyval) dict list \<Rightarrow> (string, pyval) dict
   \<Rightarrow> error + interface" where
  "InterfaceMeta_new oid name bases clsdict =
     (case declare_fields name (keyfilter is_interface_field_name clsdict) [] [] of
        Inl e \<Rightarrow> Inl e
      | Inr (sigs, dflts) \<Rightarrow>
          Inr \<lparr>iface_id = oid, iface_name = name,
               iface_vars = keyfilter (\<lambda>k. k \<notin> set [''_signatures'', ''_defaults'']) clsdict,
               iface_ancestors = bases,
               signatures = sigs, defaults = dflts\<rparr>)"

subsection \<open>Interface.__new__\<close>

text \<open>Whatever the arguments, the constructor of \<open>Interface\<close> raises.\<close>

definition Interface_new :: "interface \<Rightarrow> 'a list \<Rightarrow> (string, 'a) dict \<Rightarrow> error + 'b" where
  "Interface_new cls args kwargs =
     Inl (TypeError (''Can't instantiate interface '' @ iface_name cls))"

text \<open>
  Calling an interface, \<open>cls(*args, **kwargs)\<close>: \<open>InterfaceMeta\<close> defines no
  \<open>__call__\<close>, so this is \<open>type.__call__\<close>, which calls the \<open>__new__\<close> that the classes of
  \<open>cls.mro()\<close> give, the first one that has it in its \<open>vars\<close>. \<open>Interface.__new__\<close> is
  the one found when no class before \<open>Interface\<close> has its own. What a \<open>__new__\<close> written
  in a class body does when it is called is the parameter \<open>call\<close>.
\<close>

fun first_declared :: "(string, pyval) dict list \<Rightarrow> string \<Rightarrow> pyval option" where
  "first_declared [] name = None"
| "first_declared (vs # rest) name =
     (case dict_get vs name of
        Some v \<Rightarrow> Some v
      | None \<Rightarrow> first_declared rest name)"

definition instantiate ::
  "(pyval \<Rightarrow> interface \<Rightarrow> 'a list \<Rightarrow> (string, 'a) dict \<Rightarrow> error + 'b)
   \<Rightarrow> interface \<Rightarrow> 'a list \<Rightarrow> (string, 'a) dict \<Rightarrow> error + 'b" where
  "instantiate call cls args kwargs =
     (case first_declared (iface_vars cls # iface_ancestors cls) ''__new__'' of
        Some new \<Rightarrow> call new cls args kwargs
      | None \<Rightarrow> Interface_new cls args kwargs)"

subsection \<open>InterfaceMeta._diff_signatures\<close>

text \<open>
  The loop over \<open>self._signatures.items()\<close>, with \<open>missing\<close>, \<open>mistyped\<close> and
  \<open>mismatched\<close> as they stand. A name the lookup does not find is appended to \<open>missing\<close>
  and the loop continues; the two tests on a found member are independent \<open>if\<close>s. A
  \<open>TypeError\<close> of \<open>TypedSignature(f)\<close> is not caught.
\<close>

fun diff_signatures_loop ::
  "pytype \<Rightarrow> (string, typed_signature) dict
   \<Rightarrow> string list \<Rightarrow> (string, member_kind) dict \<Rightarrow> (string, typed_signature) dict
   \<Rightarrow> error + (string list \<times> (string, member_kind) dict \<times> (string, typed_signature) dict)"
  where
  "diff_signatures_loop ty [] missing mistyped mismatched =
     Inr (missing, mistyped, mismatched)"
| "diff_signatures_loop ty ((name, iface_sig) # rest) missing mistyped mismatched =
     (case static_get_type_attr ty name of
        Inl e \<Rightarrow> diff_signatures_loop ty rest (missing @ [name]) mistyped mismatched
      | Inr f \<Rightarrow>
          (case TypedSignature f of
             Inl e \<Rightarrow> Inl e
           | Inr impl_sig \<Rightarrow>
               diff_signatures_loop ty rest missing
                 (if \<not> issubclass_kind (sig_type impl_sig) (sig_type iface_sig)
                  then dict_set mistyped name (sig_type impl_sig) else mistyped)
                 (if \<not> compatible (sig_signature impl_sig) (sig_signature iface_sig)
                  then dict_set mismatched name impl_sig else mismatched)))"

definition diff_signatures ::
  "interface \<Rightarrow> pytype
   \<Rightarrow> error + (string list \<times> (string, member_kind) dict \<times> (string, typed_signature) dict)"
  where
  "diff_signatures self ty = diff_signatures_loop ty (signatures self) [] [] []"

subsection \<open>The diagnostics of InterfaceMeta\<close>

fun missing_lines :: "interface \<Rightarrow> string list \<Rightarrow> error + string list" where
  "missing_lines self [] = Inr []"
| "missing_lines self (name # rest) =
     (case dict_get (signatures self) name of
        None \<Rightarrow> Inl (KeyError name)
      | Some s \<Rightarrow>
          (case missing_lines self rest of
             Inl e \<Rightarrow> Inl e
           | Inr ls \<Rightarrow> Inr ((''  - '' @ name @ str_typed_signature s) # ls)))"

definition format_missing_methods :: "interface \<Rightarrow> string list \<Rightarrow> error + string" where
  "format_missing_methods self missing =
     (case missing_lines self missing of
        Inl e \<Rightarrow> Inl e
      | Inr ls \<Rightarrow> Inr (join newline (sort ls)))"

fun mistyped_lines :: "interface \<Rightarrow> (string, member_kind) dict \<Rightarrow> error + string list" where
  "mistyped_lines self [] = Inr []"
| "mistyped_lines self ((name, bad_type) # rest) =
     (case dict_get (signatures self) name of
        None \<Rightarrow> Inl (KeyError name)
      | Some s \<Rightarrow>
          (case mistyped_lines self rest of
             Inl e \<Rightarrow> Inl e
           | Inr ls \<Rightarrow>
               Inr ((''  - '' @ name @ '': '' @ repr_str (name_of_kind bad_type)
                     @ '' is not a subtype of expected type ''
                     @ repr_str (name_of_kind (sig_type s))) # ls)))"

definition format_mismatched_types ::
  "interface \<Rightarrow> (string, member_kind) dict \<Rightarrow> error + string" where
  "format_mismatched_types self mistyped =
     (case mistyped_lines self mistyped of
        Inl e \<Rightarrow> Inl e
      | Inr ls \<Rightarrow> Inr (join newline (sort ls)))"

fun mismatched_lines ::
  "interface \<Rightarrow> (string, typed_signature) dict \<Rightarrow> error + string list" where
  "mismatched_lines self [] = Inr []"
| "mismatched_lines self ((name, bad_sig) # rest) =
     (case dict_get (signatures self) name of
        None \<Rightarrow> Inl (KeyError name)
      | Some s \<Rightarrow>
          (case mismatched_lines self rest of
             Inl e \<Rightarrow> Inl e
           | Inr ls \<Rightarrow>
               Inr ((''  - '' @ name @ str_typed_signature bad_sig @ '' != '' @ name
                     @ str_typed_signature s) # ls)))"

definition format_mismatched_methods ::
  "interface \<Rightarrow> (string, typed_signature) dict \<Rightarrow> error + string" where
  "format_mismatched_methods self mismatched =
     (case mismatched_lines self mismatched of
        Inl e \<Rightarrow> Inl e
      | Inr ls \<Rightarrow> Inr (join newline (sort ls)))"

text \<open>One itemized section of the message: empty when there is nothing to list.\<close>

definition message_section :: "bool \<Rightarrow> string \<Rightarrow> error + string \<Rightarrow> error + string" where
  "message_section nonempty heading body =
     (if nonempty then
        (case body of
           Inl e \<Rightarrow> Inl e
         | Inr txt \<Rightarrow> Inr (newline @ newline @ heading @ newline @ txt))
      else Inr [])"

text \<open>
  The exception that \<open>_invalid_implementation\<close> returns, or the one it raises: its
  assertion fails when there is nothing to report.
\<close>

definition invalid_implementation ::
  "interface \<Rightarrow> pytype \<Rightarrow> string list \<Rightarrow> (string, member_kind) dict
   \<Rightarrow> (string, typed_signature) dict \<Rightarrow> error" where
  "invalid_implementation self t missing mistyped mismatched =
     (if missing = [] \<and> mistyped = [] \<and> mismatched = []
      then AssertionError ''Implementation wasn't invalid.''
      else
        (case message_section (missing \<noteq> [])
                (''The following methods of '' @ iface_name self @ '' were not implemented:'')
                (format_missing_methods self missing) of
           Inl e \<Rightarrow> e
         | Inr m1 \<Rightarrow>
        (case message_section (mistyped \<noteq> [])
                (''The following methods of '' @ iface_name self
                 @ '' were implemented with incorrect types:'')
                (format_mismatched_types self mistyped) of
           Inl e \<Rightarrow> e
         | Inr m2 \<Rightarrow>
        (case message_section (mismatched \<noteq> [])
                (''The following methods of '' @ iface_name self
                 @ '' were implemented with invalid signatures:'')
                (format_mismatched_methods self mismatched) of
           Inl e \<Rightarrow> e
         | Inr m3 \<Rightarrow>
             InvalidImplementation
               (newline @ ''class '' @ type_name t @ '' failed to implement interface ''
                @ iface_name self @ '':'' @ m1 @ m2 @ m3)))))"

subsection \<open>InterfaceMeta.verify\<close>

text \<open>
  The loop over \<open>raw_missing\<close>: a name with a default is covered by its implementation,
  a name without one (the \<open>KeyError\<close>) stays missing.
\<close>

fun defaults_for_missing ::
  "interface \<Rightarrow> string list \<Rightarrow> string list \<Rightarrow> (string, pyval) dict
   \<Rightarrow> error + (string list \<times> (string, pyval) dict)" where
  "defaults_for_missing self [] missing defaults_to_use = Inr (missing, defaults_to_use)"
| "defaults_for_missing self (name # rest) missing defaults_to_use =
     (case dict_get (defaults self) name of
        None \<Rightarrow> defaults_for_missing self rest (missing @ [name]) defaults_to_use
      | Some (Default impl) \<Rightarrow>
          defaults_for_missing self rest missing (dict_set defaults_to_use name impl)
      | Some _ \<Rightarrow> Inl (AttributeError ''implementation''))"

definition verify :: "interface \<Rightarrow> pytype \<Rightarrow> error + (string, pyval) dict" where
  "verify self ty =
     (case diff_signatures self ty of
        Inl e \<Rightarrow> Inl e
      | Inr (raw_missing, mistyped, mismatched) \<Rightarrow>
          (case defaults_for_missing self raw_missing [] [] of
             Inl e \<Rightarrow> Inl e
           | Inr (missing, defaults_to_use) \<Rightarrow>
               if missing = [] \<and> mistyped = [] \<and> mismatched = []
               then Inr defaults_to_use
               else Inl (invalid_implementation self ty missing mistyped mismatched)))"

subsection \<open>ImplementsMeta\<close>

fun conflict_sections :: "(string, interface list) dict \<Rightarrow> string" where
  "conflict_sections [] = []"
| "conflict_sections ((attrname, interfaces) # rest) =
     newline @ newline
     @ ''The following interfaces provided default implementations for ''
     @ repr_str attrname @ '':'' @ newline
     @ join newline (sort (map (\<lambda>iface. ''  - '' @ iface_name iface) interfaces))
     @ conflict_sections rest"

definition conflicting_defaults :: "string \<Rightarrow> (string, interface list) dict \<Rightarrow> error" where
  "conflicting_defaults typename conflicts =
     InvalidImplementation
       (newline @ ''class '' @ typename @ '' received conflicting default implementations:''
        @ conflict_sections conflicts)"

text \<open>
  \<open>t._interfaces\<close>: the attribute is read through the classes of \<open>t.mro()\<close>, so a class
  that has not stored its own yet shows the one of its nearest ancestor.
\<close>

fun getattr_interfaces_loop :: "pytype list \<Rightarrow> error + frozenset" where
  "getattr_interfaces_loop [] = Inl (AttributeError ''_interfaces'')"
| "getattr_interfaces_loop (t # rest) =
     (case own_interfaces t of
        Some fs \<Rightarrow> Inr fs
      | None \<Rightarrow> getattr_interfaces_loop rest)"

definition getattr_interfaces :: "pytype \<Rightarrow> error + frozenset" where
  "getattr_interfaces t = getattr_interfaces_loop (mro t)"

fun inherited_interfaces :: "pytype list \<Rightarrow> error + pyobj list" where
  "inherited_interfaces [] = Inr []"
| "inherited_interfaces (t # rest) =
     (case getattr_interfaces t of
        Inl e \<Rightarrow> Inl e
      | Inr fs \<Rightarrow>
          (case inherited_interfaces rest of
             Inl e \<Rightarrow> Inl e
           | Inr others \<Rightarrow> Inr (fs @ others)))"

definition interfaces_with_duplicates :: "pytype \<Rightarrow> error + pyobj list" where
  "interfaces_with_duplicates self =
     (case getattr_interfaces self of
        Inl e \<Rightarrow> Inl e
      | Inr own \<Rightarrow>
          (case inherited_interfaces (filter is_a_ImplementsMeta (mro self)) of
             Inl e \<Rightarrow> Inl e
           | Inr others \<Rightarrow> Inr (own @ others)))"

text \<open>
  Modelled from the spec: \<open>unique\<close> of \<^verbatim>\<open>utils.py\<close> (not among the sources)
  deduplicates while preserving discovery order; the first occurrence stays.
\<close>

fun unique_loop :: "'a list \<Rightarrow> 'a list \<Rightarrow> 'a list" where
  "unique_loop seen [] = []"
| "unique_loop seen (x # xs) =
     (if x \<in> set seen then unique_loop seen xs else x # unique_loop (x # seen) xs)"

definition unique :: "'a list \<Rightarrow> 'a list" where
  "unique xs = unique_loop [] xs"

definition interfaces :: "pytype \<Rightarrow> error + pyobj list" where
  "interfaces self =
     (case interfaces_with_duplicates self of
        Inl e \<Rightarrow> Inl e
      | Inr elems \<Rightarrow> Inr (unique elems))"

text \<open>\<open>default_providers[name].append(iface)\<close> on a \<open>defaultdict(list)\<close>.\<close>

definition defaultdict_append :: "('k, 'v list) dict \<Rightarrow> 'k \<Rightarrow> 'v \<Rightarrow> ('k, 'v list) dict" where
  "defaultdict_append d k x =
     dict_set d k ((case dict_get d k of None \<Rightarrow> [] | Some xs \<Rightarrow> xs) @ [x])"

fun record_defaults ::
  "interface \<Rightarrow> (string, pyval) dict \<Rightarrow> (string, pyval) dict \<Rightarrow> (string, interface list) dict
   \<Rightarrow> (string, pyval) dict \<times> (string, interface list) dict" where
  "record_defaults iface [] default_impls default_providers =
     (default_impls, default_providers)"
| "record_defaults iface ((name, impl) # rest) default_impls default_providers =
     record_defaults iface rest (dict_set default_impls name impl)
       (defaultdict_append default_providers name iface)"

text \<open>
  The loop over \<open>newtype.interfaces()\<close>. An \<open>InvalidImplementation\<close> of \<open>verify\<close> is
  collected and the loop goes on; any other exception leaves it.
\<close>

fun verify_interfaces ::
  "pytype \<Rightarrow> pyobj list \<Rightarrow> error list \<Rightarrow> (string, pyval) dict
   \<Rightarrow> (string, interface list) dict
   \<Rightarrow> error + (error list \<times> (string, pyval) dict \<times> (string, interface list) dict)" where
  "verify_interfaces newtype [] errors default_impls default_providers =
     Inr (errors, default_impls, default_providers)"
| "verify_interfaces newtype (IfaceObj iface # rest) errors default_impls default_providers =
     (case verify iface newtype of
        Inr defaults_from_iface \<Rightarrow>
          (case record_defaults iface defaults_from_iface default_impls default_providers of
             (impls, providers) \<Rightarrow> verify_interfaces newtype rest errors impls providers)
      | Inl e \<Rightarrow>
          if isinstance_InvalidImplementation e
          then verify_interfaces newtype rest (errors @ [e]) default_impls default_providers
          else Inl e)"
| "verify_interfaces newtype (_ # rest) errors default_impls default_providers =
     Inl (AttributeError ''verify'')"

text \<open>\<open>setattr(newtype, name, impl)\<close> for every resolved default.\<close>

fun setattr :: "pytype \<Rightarrow> string \<Rightarrow> pyval \<Rightarrow> pytype" where
  "setattr (PyType i n vs anc m fs) name v = PyType i n (dict_set vs name v) anc m fs"

fun install_defaults :: "pytype \<Rightarrow> (string, pyval) dict \<Rightarrow> pytype" where
  "install_defaults newtype [] = newtype"
| "install_defaults newtype ((name, impl) # rest) =
     install_defaults (setattr newtype name impl) rest"

text \<open>
  \<open>ImplementsMeta.__new__\<close>. \<open>oid\<close> is the identity of the new class object and
  \<open>ancestors\<close> the linearization of \<open>bases\<close>, both the runtime's; \<open>clsdict\<close> becomes
  \<open>vars(newtype)\<close>.
\<close>

definition ImplementsMeta_new ::
  "nat \<Rightarrow> string \<Rightarrow> pytype list \<Rightarrow> (string, pyval) dict \<Rightarrow> frozenset \<Rightarrow> error + pytype" where
  "ImplementsMeta_new oid name ancs clsdict ifaces =
     (let newtype = PyType oid name clsdict ancs Meta_ImplementsMeta None in
      if ifaces \<noteq> [] then Inr newtype
      else
        (case interfaces newtype of
           Inl e \<Rightarrow> Inl e
         | Inr todo \<Rightarrow>
        (case verify_interfaces newtype todo [] [] [] of
           Inl e \<Rightarrow> Inl e
         | Inr (errors, default_impls, default_providers) \<Rightarrow>
             let duplicate_defaults =
                   valfilter (\<lambda>ifaces. length ifaces > 1) default_providers;
                 errors' =
                   (if duplicate_defaults \<noteq> []
                    then errors @ [conflicting_defaults (type_name newtype) duplicate_defaults]
                    else errors);
                 newtype' =
                   (if duplicate_defaults \<noteq> [] then newtype
                    else install_defaults newtype default_impls)
             in (case errors' of
                   [] \<Rightarrow> Inr newtype'
                 | [e] \<Rightarrow> Inl e
                 | _ \<Rightarrow>
                     Inl (InvalidImplementation
                            (join (newline @ newline) (map str_error errors')))))))"

fun ImplementsMeta_init :: "pytype \<Rightarrow> frozenset \<Rightarrow> pytype" where
  "ImplementsMeta_init (PyType i n vs anc m fs) ifaces = PyType i n vs anc m (Some ifaces)"

text \<open>
  Calling the metaclass: \<open>__new__\<close>, then \<open>__init__\<close> on the class it returned. A class
  statement with a base made by \<open>ImplementsMeta\<close> is this call with \<open>interfaces\<close> left
  at its default, the empty set.
\<close>

definition ImplementsMeta_call ::
  "nat \<Rightarrow> string \<Rightarrow> pytype list \<Rightarrow> (string, pyval) dict \<Rightarrow> frozenset \<Rightarrow> error + pytype" where
  "ImplementsMeta_call oid name ancs clsdict ifaces =
     (case ImplementsMeta_new oid name ancs clsdict ifaces of
        Inl e \<Rightarrow> Inl e
      | Inr newtype \<Rightarrow> Inr (ImplementsMeta_init newtype ifaces))"

definition empty_set :: frozenset where
  "empty_set = []"

definition class_statement ::
  "nat \<Rightarrow> string \<Rightarrow> pytype list \<Rightarrow> (string, pyval) dict \<Rightarrow> error + pytype" where
  "class_statement oid name ancs clsdict = ImplementsMeta_call oid name ancs clsdict empty_set"

subsection \<open>implements\<close>

definition format_iface_method_docs :: "interface \<Rightarrow> string" where
  "format_iface_method_docs I =
     join newline
       (map (\<lambda>(method_name, s). iface_name I @ ''.'' @ method_name @ str_typed_signature s)
          (sort_key fst (signatures I)))"

text \<open>
  The memo is keyed by the frozenset of the arguments. The key of an entry is also stored
  on the class the entry holds (the source asserts it), and the entry holds that class,
  so the weak dictionary never loses an entry: it is a dictionary whose keys compare as
  sets.
\<close>

type_synonym memo = "(frozenset \<times> pytype) list"

definition memo_get :: "memo \<Rightarrow> frozenset \<Rightarrow> pytype option" where
  "memo_get memo k = map_option snd (find (\<lambda>(k', t). frozenset_eq k' k) memo)"

fun memo_set :: "memo \<Rightarrow> frozenset \<Rightarrow> pytype \<Rightarrow> memo" where
  "memo_set [] k t = [(k, t)]"
| "memo_set ((k', t') # memo) k t =
     (if frozenset_eq k' k then (k', t) # memo else (k', t') # memo_set memo k t)"

text \<open>
  The loop that checks \<open>issubclass(I, Interface)\<close> for every element; what it lets
  through are interfaces. For an object that is no class \<open>issubclass\<close> itself raises the
  \<open>TypeError\<close>.
\<close>

fun expect_interfaces :: "pyobj list \<Rightarrow> error + interface list" where
  "expect_interfaces [] = Inr []"
| "expect_interfaces (IfaceObj I # rest) =
     (case expect_interfaces rest of
        Inl e \<Rightarrow> Inl e
      | Inr others \<Rightarrow> Inr (I # others))"
| "expect_interfaces (ClassObj s # rest) =
     Inl (TypeError (''implements() expected an Interface, but got '' @ s @ ''.''))"
| "expect_interfaces (NonClassObj s # rest) =
     Inl (TypeError ''issubclass() arg 1 must be a class'')"

text \<open>
  \<open>implements(*interfaces)\<close> with the memo as explicit state. \<open>obj\<close> is the class
  \<open>object\<close> and \<open>oid\<close> the identity a new class object would get.
\<close>

definition implements ::
  "pytype \<Rightarrow> nat \<Rightarrow> pyobj list \<Rightarrow> memo \<Rightarrow> (error + pytype) \<times> memo" where
  "implements obj oid args memo =
     (if args = []
      then (Inl (TypeError ''implements() requires at least one interface''), memo)
      else
        let ifaces = frozenset args in
        (case memo_get memo ifaces of
           Some t \<Rightarrow> (Inr t, memo)
         | None \<Rightarrow>
        (case expect_interfaces ifaces of
           Inl e \<Rightarrow> (Inl e, memo)
         | Inr checked \<Rightarrow>
             let ordered_ifaces = sort_key iface_name checked;
                 iface_names = map iface_name ordered_ifaces;
                 name = ''Implements'' @ join ''_'' iface_names;
                 doc = ''Implementation of '' @ join '', '' iface_names @ ''.''
                       @ newline @ newline @ ''Methods'' @ newline @ ''-------'' @ newline
                       @ join newline (map format_iface_method_docs ordered_ifaces)
             in (case ImplementsMeta_call oid name [obj] [(''__doc__'', Str doc)] ifaces of
                   Inl e \<Rightarrow> (Inl e, memo)
                 | Inr result \<Rightarrow>
                     if getattr_interfaces result \<noteq> Inr ifaces
                     then (Inl (AssertionError ''Interfaces not stored.''), memo)
                     else (Inr result, memo_set memo ifaces result)))))"

section \<open>Vocabulary of the properties\<close>

text \<open>
  The class \<open>object\<close>, the last class of every \<open>mro()\<close>: it is made by \<open>type\<close>, has no
  \<open>_interfaces\<close>, and \<open>vs\<close> is what \<open>vars(object)\<close> holds.
\<close>

definition object_type :: "(string, pyval) dict \<Rightarrow> pytype" where
  "object_type vs = PyType 0 ''object'' vs [] Meta_type None"

text \<open>
  A candidate conforms to a declared member when \<open>_diff_signatures\<close> files the name
  under none of its three results: the static lookup finds a value, the kind of that
  value passes the subtype test and its call shape the compatibility test.
\<close>

definition member_ok :: "pytype \<Rightarrow> string \<Rightarrow> typed_signature \<Rightarrow> bool" where
  "member_ok ty name iface_sig =
     (case static_get_type_attr ty name of
        Inl e \<Rightarrow> False
      | Inr f \<Rightarrow>
          (case TypedSignature f of
             Inl e \<Rightarrow> False
           | Inr impl_sig \<Rightarrow>
               issubclass_kind (sig_type impl_sig) (sig_type iface_sig)
               \<and> compatible (sig_signature impl_sig) (sig_signature iface_sig)))"

text \<open>\<open>issubclass(I, Interface)\<close>, where it returns.\<close>

fun is_interface_obj :: "pyobj \<Rightarrow> bool" where
  "is_interface_obj (IfaceObj I) = True"
| "is_interface_obj _ = False"

text \<open>
  The memo after a sequence of calls of \<open>implements\<close>, each given by the identity a new
  class would get and by its arguments.
\<close>

fun memo_after :: "pytype \<Rightarrow> (nat \<times> pyobj list) list \<Rightarrow> memo \<Rightarrow> memo" where
  "memo_after obj [] memo = memo"
| "memo_after obj ((oid, args) # calls) memo =
     memo_after obj calls (snd (implements obj oid args memo))"

text \<open>
  What holds of every entry of the memo: the key is a non-empty frozenset of interfaces,
  and the class is one that \<open>implements\<close> made, directly under \<open>object\<close>, with the key as
  its \<open>_interfaces\<close>.
\<close>

definition memo_entry_ok :: "pytype \<Rightarrow> frozenset \<Rightarrow> pytype \<Rightarrow> bool" where
  "memo_entry_ok obj k t \<longleftrightarrow>
     list_all is_interface_obj k \<and> distinct k \<and> k \<noteq> []
     \<and> ancestors t = [obj] \<and> type_meta t = Meta_ImplementsMeta \<and> own_interfaces t = Some k"

definition memo_ok :: "pytype \<Rightarrow> memo \<Rightarrow> bool" where
  "memo_ok obj memo = list_all (\<lambda>(k, t). memo_entry_ok obj k t) memo"

section \<open>Example declarations\<close>

text \<open>
  \<^verbatim>\<open>
  class Shape(Interface):
      """A shape."""
      def area(self): ...
      def scale(self, factor): ...
      @default
      def describe(self): ...
  \<close>
\<close>

definition factor_param :: parameter where
  "factor_param = \<lparr>pname = ''factor'', pkind = Positional, has_default = False\<rparr>"

definition describe_impl :: pyval where
  "describe_impl = Callable Function []"

definition Shape_body :: "(string, pyval) dict" where
  "Shape_body =
     [(''__doc__'', Str ''A shape.''),
      (''area'', Callable Function []),
      (''scale'', Callable Function [factor_param]),
      (''describe'', Default describe_impl)]"

definition Shape :: interface where
  "Shape =
     \<lparr>iface_id = 1, iface_name = ''Shape'',
      iface_vars = Shape_body, iface_ancestors = [],
      signatures =
        [(''area'', \<lparr>sig_type = Function, sig_signature = []\<rparr>),
         (''scale'', \<lparr>sig_type = Function, sig_signature = [factor_param]\<rparr>),
         (''describe'', \<lparr>sig_type = Function, sig_signature = []\<rparr>)],
      defaults = [(''describe'', Default describe_impl)]\<rparr>"

text \<open>
  \<^verbatim>\<open>
  class Polygon(Interface):
      def area(self): ...
      sides = 4
  \<close>
\<close>

definition Polygon_body :: "(string, pyval) dict" where
  "Polygon_body =
     [(''__module__'', Str ''shapes''),
      (''area'', Callable Function []),
      (''sides'', Plain ''int'')]"

text \<open>
  The class \<open>object\<close>, with what \<open>vars(object)\<close> holds, and three classes that do not
  come from \<open>implements\<close>: \<open>Square\<close> defines every member of \<open>Shape\<close> as declared,
  \<open>Circle\<close> leaves \<open>describe\<close> out, and \<open>Blob\<close> defines \<open>area\<close> as a static method that
  takes an argument.
\<close>

definition object_example :: pytype where
  "object_example =
     object_type [(''__init__'', Plain ''wrapper_descriptor''),
                  (''__repr__'', Plain ''wrapper_descriptor'')]"

definition Square :: pytype where
  "Square =
     PyType 10 ''Square''
       [(''area'', Callable Function []),
        (''scale'', Callable Function [factor_param]),
        (''describe'', Callable Function [])]
       [object_example] Meta_type None"

definition Circle :: pytype where
  "Circle =
     PyType 11 ''Circle''
       [(''area'', Callable Function []),
        (''scale'', Callable Function [factor_param])]
       [object_example] Meta_type None"

definition Blob :: pytype where
  "Blob =
     PyType 12 ''Blob''
       [(''area'', Callable StaticMethod [factor_param]),
        (''scale'', Callable Function [factor_param])]
       [object_example] Meta_type None"

text \<open>
  \<^verbatim>\<open>
  class Named(Interface):
      def name(self): ...
      describe = Shape.__dict__['describe']     # the same default object

  class Card(implements(Shape, Named)):
      def area(self): ...
      def scale(self, factor): ...
      def name(self): ...
  \<close>
\<close>

definition Named_body :: "(string, pyval) dict" where
  "Named_body =
     [(''name'', Callable Function []),
      (''describe'', Default describe_impl)]"

definition Named :: interface where
  "Named =
     \<lparr>iface_id = 2, iface_name = ''Named'',
      iface_vars = Named_body, iface_ancestors = [],
      signatures =
        [(''name'', \<lparr>sig_type = Function, sig_signature = []\<rparr>),
         (''describe'', \<lparr>sig_type = Function, sig_signature = []\<rparr>)],
      defaults = [(''describe'', Default describe_impl)]\<rparr>"

definition Card_body :: "(string, pyval) dict" where
  "Card_body =
     [(''area'', Callable Function []),
      (''scale'', Callable Function [factor_param]),
      (''name'', Callable Function [])]"

text \<open>
  An interface that declares \<open>__new__\<close>, and a \<open>call\<close> for a body that returns an
  instance of the class it is given.
  \<^verbatim>\<open>
  class Foo(Interface):
      def __new__(cls):
          return object.__new__(cls)
  \<close>
\<close>

datatype pyinstance = InstanceOf nat

definition Foo_body :: "(string, pyval) dict" where
  "Foo_body = [(''__new__'', Callable Function [])]"

definition Foo :: interface where
  "Foo =
     \<lparr>iface_id = 3, iface_name = ''Foo'',
      iface_vars = Foo_body, iface_ancestors = [],
      signatures = [(''__new__'', \<lparr>sig_type = Function, sig_signature = []\<rparr>)],
      defaults = []\<rparr>"

definition returns_instance ::
  "pyval \<Rightarrow> interface \<Rightarrow> pyval list \<Rightarrow> (string, pyval) dict \<Rightarrow> error + pyinstance" where
  "returns_instance new cls args kwargs = Inr (InstanceOf (iface_id cls))"

text \<open>The class that \<open>implements(Shape, Named)\<close> makes, given the identity 100.\<close>

definition Implements_Named_Shape :: pytype where
  "Implements_Named_Shape =
     PyType 100 ''ImplementsNamed_Shape''
       [(''__doc__'',
         Str (''Implementation of Named, Shape.'' @ newline @ newline
              @ ''Methods'' @ newline @ ''-------'' @ newline
              @ ''Named.describe()'' @ newline @ ''Named.name()'' @ newline
              @ ''Shape.area()'' @ newline @ ''Shape.describe()'' @ newline
              @ ''Shape.scale(factor)''))]
       [object_example] Meta_ImplementsMeta (Some [IfaceObj Shape, IfaceObj Named])"

section \<open>Dictionaries\<close>

lemma keys_dict_set_list:
  "keys (dict_set d k v) = (if k \<in> set (keys d) then keys d else keys d @ [k])"
  by (induction d) (force simp: keys_def)+

lemma keys_dict_set: "set (keys (dict_set d k v)) = insert k (set (keys d))"
  by (auto simp: keys_dict_set_list)

lemma dict_get_dict_set:
  "dict_get (dict_set d k v) k' = (if k' = k then Some v else dict_get d k')"
  by (induction d) (auto simp: dict_get_def)

lemma distinct_dict_set: "distinct (keys d) \<Longrightarrow> distinct (keys (dict_set d k v))"
  by (simp add: keys_dict_set_list)

lemma dict_get_None_iff: "dict_get d k = None \<longleftrightarrow> k \<notin> set (keys d)"
  by (simp add: dict_get_def keys_def map_of_eq_None_iff)

section \<open>Declaring an interface\<close>

lemma TypedSignature_error: "TypedSignature v = Inl e \<Longrightarrow> isinstance_TypeError e"
  by (induction v rule: TypedSignature.induct) auto

lemma declare_fields_keys:
  "declare_fields name body sigs dflts = Inr (sigs', dflts')
   \<Longrightarrow> set (keys dflts) \<subseteq> set (keys sigs)
   \<Longrightarrow> set (keys dflts') \<subseteq> set (keys sigs')"
proof (induction body arbitrary: sigs dflts)
  case Nil
  then show ?case by simp
next
  case (Cons kv rest)
  obtain k v where kv: "kv = (k, v)" by (cases kv)
  from Cons.prems(1) obtain s where s: "TypedSignature v = Inr s"
    and rec: "declare_fields name rest (dict_set sigs k s)
                (if isinstance_default v then dict_set dflts k v else dflts) = Inr (sigs', dflts')"
    unfolding kv by (auto split: sum.splits if_splits)
  have "set (keys (if isinstance_default v then dict_set dflts k v else dflts))
          \<subseteq> set (keys (dict_set sigs k s))"
    using Cons.prems(2) by (auto simp: keys_dict_set)
  then show ?case by (rule Cons.IH [OF rec])
qed

lemma InterfaceMeta_new_Shape: "InterfaceMeta_new 1 ''Shape'' [] Shape_body = Inr Shape"
  by code_simp

lemma InterfaceMeta_new_keys:
  assumes "InterfaceMeta_new oid name bases clsdict = Inr I"
  shows "set (keys (defaults I)) \<subseteq> set (keys (signatures I))"
proof -
  from assms obtain sigs dflts where
    d: "declare_fields name (keyfilter is_interface_field_name clsdict) [] [] = Inr (sigs, dflts)"
    and I: "signatures I = sigs" "defaults I = dflts"
    by (auto simp: InterfaceMeta_new_def split: sum.splits)
  have "set (keys dflts) \<subseteq> set (keys sigs)"
    by (rule declare_fields_keys [OF d]) (simp add: keys_def)
  then show ?thesis by (simp add: I)
qed

text \<open>
  C9: every key of the defaults mapping of a constructed interface is a key of its
  signatures mapping. An interface is a value that no operation of the module changes,
  so what holds when \<open>InterfaceMeta.__new__\<close> returns it holds for as long as it is used.
\<close>

theorem defaults_subset_signatures:
  assumes "InterfaceMeta_new oid name bases clsdict = Inr I"
  shows "set (keys (defaults I)) \<subseteq> set (keys (signatures I))"
  using assms by (rule InterfaceMeta_new_keys)

theorem defaults_subset_signatures_witness:
  "InterfaceMeta_new 1 ''Shape'' [] Shape_body = Inr Shape
   \<and> keys (defaults Shape) = [''describe'']
   \<and> set (keys (defaults Shape)) \<subseteq> set (keys (signatures Shape))"
  using defaults_subset_signatures [OF InterfaceMeta_new_Shape] InterfaceMeta_new_Shape
  by (simp add: Shape_def keys_def)

section \<open>Instantiating an interface\<close>

lemma dict_get_keyfilter:
  "dict_get (keyfilter f d) k = (if f k then dict_get d k else None)"
  by (induction d) (auto simp: dict_get_def keyfilter_def)

lemma first_declared_None:
  "list_all (\<lambda>vs. name \<notin> set (keys vs)) classes \<Longrightarrow> first_declared classes name = None"
  by (induction classes) (auto simp: dict_get_None_iff [symmetric])

lemma InterfaceMeta_new_vars:
  assumes "InterfaceMeta_new oid name bases clsdict = Inr cls"
  shows "iface_name cls = name \<and> iface_ancestors cls = bases
       \<and> dict_get (iface_vars cls) ''__new__'' = dict_get clsdict ''__new__''"
  using assms
  by (auto simp: InterfaceMeta_new_def dict_get_keyfilter split: sum.splits)

text \<open>
  C6, as the claim states it, fails: \<open>__new__\<close> is not in the whitelist, so \<open>Foo\<close>, which
  declares it, is an interface like any other, and calling \<open>Foo()\<close> runs the \<open>__new__\<close> of
  \<open>Foo\<close>, which returns an instance; \<open>Interface.__new__\<close> is not reached.
\<close>

theorem instantiate_declared_new_counterexample:
  "InterfaceMeta_new 3 ''Foo'' [] Foo_body = Inr Foo
   \<and> instantiate returns_instance Foo [] [] = Inr (InstanceOf 3)"
  by code_simp

text \<open>
  C6, amended: for an interface in whose \<open>mro()\<close> no class before \<open>Interface\<close> declares
  \<open>__new__\<close> (neither its own body nor a class it derives from), every attempt to
  construct an instance raises the \<open>TypeError\<close> of \<open>Interface.__new__\<close>, which names the
  interface, whatever the positional and keyword arguments and whatever the members
  that the classes declare would do when called.
\<close>

theorem instantiate_raises:
  assumes "InterfaceMeta_new oid name bases clsdict = Inr cls"
    and "''__new__'' \<notin> set (keys clsdict)"
    and "list_all (\<lambda>vs. ''__new__'' \<notin> set (keys vs)) bases"
  shows "instantiate call cls args kwargs
           = Inl (TypeError (''Can't instantiate interface '' @ name))"
proof -
  from InterfaceMeta_new_vars [OF assms(1)] assms(2)
  have n: "iface_name cls = name" and a: "iface_ancestors cls = bases"
    and v: "dict_get (iface_vars cls) ''__new__'' = None"
    by (simp_all add: dict_get_None_iff)
  from first_declared_None [OF assms(3)] a v
  have "first_declared (iface_vars cls # iface_ancestors cls) ''__new__'' = None" by simp
  with n show ?thesis by (simp add: instantiate_def Interface_new_def)
qed

theorem instantiate_raises_witness:
  "InterfaceMeta_new 1 ''Shape'' [] Shape_body = Inr Shape
   \<and> ''__new__'' \<notin> set (keys Shape_body)
   \<and> list_all (\<lambda>vs. ''__new__'' \<notin> set (keys vs)) []
   \<and> instantiate returns_instance Shape [Str ''x''] []
       = Inl (TypeError ''Can't instantiate interface Shape'')"
proof -
  have a: "''__new__'' \<notin> set (keys Shape_body)" by (simp add: Shape_body_def keys_def)
  have b: "list_all (\<lambda>vs. ''__new__'' \<notin> set (keys vs)) ([] :: (string, pyval) dict list)"
    by simp
  from instantiate_raises [OF InterfaceMeta_new_Shape a b, of returns_instance "[Str ''x'']" "[]"]
    InterfaceMeta_new_Shape a
  show ?thesis by simp
qed

section \<open>A field without a signature\<close>

lemma find_filter: "find P (filter Q xs) = find (\<lambda>x. Q x \<and> P x) xs"
  by (induction xs) auto

lemma declare_fields_fails:
  "find (\<lambda>(k, v). isl (TypedSignature v)) body = Some (k, v)
   \<Longrightarrow> declare_fields name body sigs dflts = Inl (TypeError (couldnt_parse name k v))"
proof (induction body arbitrary: sigs dflts)
  case Nil
  then show ?case by simp
next
  case (Cons kv rest)
  obtain k0 v0 where kv: "kv = (k0, v0)" by (cases kv)
  show ?case
  proof (cases "TypedSignature v0")
    case (Inl e)
    with Cons.prems kv have "k0 = k" "v0 = v" by auto
    with Inl TypedSignature_error [OF Inl] kv show ?thesis by simp
  next
    case (Inr s)
    with Cons.prems kv have "find (\<lambda>(k, v). isl (TypedSignature v)) rest = Some (k, v)"
      by simp
    from Cons.IH [OF this] Inr kv show ?thesis by simp
  qed
qed

text \<open>
  C8: when the class body has a field outside the whitelist whose signature cannot be
  derived, \<open>InterfaceMeta.__new__\<close> returns no interface: it raises a \<open>TypeError\<close> for
  the first such field of the body, and the message gives the name of the interface, the
  name of the field and the name of the type of its value. The failure is that of the
  declaration; there is no interface that a later verification could be run on.
\<close>

theorem declaration_fails_at_once:
  assumes "(k, v) \<in> set clsdict" and "is_interface_field_name k"
    and "TypedSignature v = Inl e"
  shows "\<exists>k' v'.
     find (\<lambda>(k, v). is_interface_field_name k \<and> isl (TypedSignature v)) clsdict = Some (k', v')
     \<and> InterfaceMeta_new oid name bases clsdict
         = Inl (TypeError (''Couldn't parse signature for field '' @ name @ ''.'' @ k'
                           @ '' of type '' @ name_of_type v' @ ''.''))"
proof -
  let ?bad = "\<lambda>(k, v). is_interface_field_name k \<and> isl (TypedSignature v)"
  from assms have "?bad (k, v)" by simp
  with assms(1) have "find ?bad clsdict \<noteq> None"
    by (auto simp: find_None_iff)
  then obtain k' v' where f: "find ?bad clsdict = Some (k', v')" by auto
  have "find (\<lambda>(k, v). isl (TypedSignature v))
          (keyfilter is_interface_field_name clsdict) = Some (k', v')"
    unfolding keyfilter_def find_filter using f
    by (simp add: case_prod_unfold)
  from declare_fields_fails [OF this]
  have "InterfaceMeta_new oid name bases clsdict = Inl (TypeError (couldnt_parse name k' v'))"
    by (simp add: InterfaceMeta_new_def)
  with f show ?thesis by (auto simp: couldnt_parse_def)
qed

lemmas example_defs = Shape_def Shape_body_def factor_param_def describe_impl_def
  Square_def Circle_def Blob_def object_example_def object_type_def Polygon_body_def

lemmas lookup_defs = static_get_type_attr_def mro_def dict_get_def

theorem declaration_fails_at_once_witness:
  "(''sides'', Plain ''int'') \<in> set Polygon_body
   \<and> is_interface_field_name ''sides''
   \<and> TypedSignature (Plain ''int'') = Inl (TypeError '''int' object is not a callable object'')
   \<and> InterfaceMeta_new 2 ''Polygon'' [] Polygon_body
       = Inl (TypeError ''Couldn't parse signature for field Polygon.sides of type int.'')"
proof -
  have a: "(''sides'', Plain ''int'') \<in> set Polygon_body" by (simp add: Polygon_body_def)
  have b: "is_interface_field_name ''sides''"
    by (simp add: is_interface_field_name_def complement_def CLASS_ATTRIBUTE_WHITELIST_def)
  have c: "TypedSignature (Plain ''int'')
             = Inl (TypeError '''int' object is not a callable object'')"
    by (simp add: repr_str_def)
  have f: "find (\<lambda>(k, v). is_interface_field_name k \<and> isl (TypedSignature v)) Polygon_body
             = Some (''sides'', Plain ''int'')"
    by (simp add: Polygon_body_def is_interface_field_name_def complement_def
        CLASS_ATTRIBUTE_WHITELIST_def)
  from declaration_fails_at_once [OF a b c, of 2 "''Polygon''" "[]"] f
  have "InterfaceMeta_new 2 ''Polygon'' [] Polygon_body
       = Inl (TypeError ''Couldn't parse signature for field Polygon.sides of type int.'')"
    by simp
  with a b c show ?thesis by simp
qed

section \<open>Verifying a type against an interface\<close>





lemma set_dict_set: "set (dict_set d k v) \<subseteq> insert (k, v) (set d)"
  by (induction d) (auto split: if_splits)

lemma dict_set_idem: "dict_set (dict_set d k v) k v = dict_set d k v"
  by (induction d) auto

lemma dict_get_Some_mem: "dict_get d k = Some v \<Longrightarrow> (k, v) \<in> set d"
  by (simp add: dict_get_def map_of_SomeD)

lemma declare_fields_defaults:
  "declare_fields name body sigs dflts = Inr (sigs', dflts')
   \<Longrightarrow> list_all (\<lambda>(k, v). isinstance_default v) dflts
   \<Longrightarrow> list_all (\<lambda>(k, v). isinstance_default v) dflts'"
proof (induction body arbitrary: sigs dflts)
  case Nil
  then show ?case by simp
next
  case (Cons kv rest)
  obtain k v where kv: "kv = (k, v)" by (cases kv)
  from Cons.prems(1) obtain s where s: "TypedSignature v = Inr s"
    and rec: "declare_fields name rest (dict_set sigs k s)
                (if isinstance_default v then dict_set dflts k v else dflts) = Inr (sigs', dflts')"
    unfolding kv by (auto split: sum.splits if_splits)
  have "list_all (\<lambda>(k, v). isinstance_default v)
          (if isinstance_default v then dict_set dflts k v else dflts)"
    using Cons.prems(2) set_dict_set [of dflts k v] by (auto simp: list_all_iff)
  then show ?case by (rule Cons.IH [OF rec])
qed

lemma InterfaceMeta_new_defaults:
  assumes "InterfaceMeta_new oid name bases clsdict = Inr I"
    and "dict_get (defaults I) m = Some d"
  shows "\<exists>impl. d = Default impl"
proof -
  from assms(1) obtain sigs dflts where
    d: "declare_fields name (keyfilter is_interface_field_name clsdict) [] [] = Inr (sigs, dflts)"
    and I: "signatures I = sigs" "defaults I = dflts"
    by (auto simp: InterfaceMeta_new_def split: sum.splits)
  have "list_all (\<lambda>(k, v). isinstance_default v) dflts"
    by (rule declare_fields_defaults [OF d]) simp
  moreover from assms(2) I have "(m, d) \<in> set dflts" by (simp add: dict_get_Some_mem)
  ultimately have "isinstance_default d" by (auto simp: list_all_iff)
  then show ?thesis by (cases d) auto
qed

lemma diff_signatures_loop_lacking:
  assumes "static_get_type_attr T m = Inl e"
  shows "list_all (\<lambda>(n, s). n = m \<or> member_ok T n s) sigs
   \<Longrightarrow> diff_signatures_loop T sigs missing mistyped mismatched
       = Inr (missing @ filter (\<lambda>n. n = m) (keys sigs), mistyped, mismatched)"
proof (induction sigs arbitrary: missing)
  case Nil
  then show ?case by (simp add: keys_def)
next
  case (Cons a sigs)
  obtain n s where a: "a = (n, s)" by (cases a)
  from Cons.prems have rest: "list_all (\<lambda>(n, s). n = m \<or> member_ok T n s) sigs" by simp
  show ?case
  proof (cases "n = m")
    case True
    with assms Cons.IH [OF rest, of "missing @ [m]"] a show ?thesis
      by (simp add: keys_def)
  next
    case False
    with Cons.prems a have "member_ok T n s" by simp
    with Cons.IH [OF rest, of missing] a False show ?thesis
      by (auto simp: keys_def member_ok_def split: sum.splits)
  qed
qed

lemma defaults_for_missing_covered:
  assumes "dict_get (defaults I) m = Some (Default impl)"
  shows "set xs \<subseteq> {m}
   \<Longrightarrow> defaults_for_missing I xs missing dtu
       = Inr (missing, if xs = [] then dtu else dict_set dtu m impl)"
proof (induction xs arbitrary: dtu)
  case Nil
  then show ?case by simp
next
  case (Cons x xs)
  then have x: "x = m" and xs: "set xs \<subseteq> {m}" by auto
  from Cons.IH [OF xs, of "dict_set dtu m impl"] assms x show ?case
    by (simp add: dict_set_idem)
qed

text \<open>
  C4: for an interface that declares a default for \<open>m\<close> and a type that lacks \<open>m\<close> in
  every class of its \<open>mro()\<close> and conforms to every other declared member, \<open>verify\<close>
  succeeds and the mapping it returns takes \<open>m\<close> to the implementation of that default.
\<close>

theorem verify_uses_default:
  assumes "InterfaceMeta_new oid name bases clsdict = Inr I"
    and "dict_get (defaults I) m = Some d"
    and "static_get_type_attr T m = Inl e"
    and "list_all (\<lambda>(n, iface_sig). n = m \<or> member_ok T n iface_sig) (signatures I)"
  shows "\<exists>impl. d = Default impl \<and> verify I T = Inr [(m, impl)]"
proof -
  define raw where "raw = filter (\<lambda>n. n = m) (keys (signatures I))"
  from InterfaceMeta_new_defaults [OF assms(1,2)] obtain impl where d: "d = Default impl" ..
  from assms(2) have "m \<in> set (keys (defaults I))"
    using dict_get_None_iff [of "defaults I" m] by auto
  with InterfaceMeta_new_keys [OF assms(1)] have "m \<in> set (keys (signatures I))" by auto
  then have ne: "raw \<noteq> []"
    by (auto simp: raw_def filter_empty_conv)
  have sub: "set raw \<subseteq> {m}" by (auto simp: raw_def)
  have diff: "diff_signatures I T = Inr (raw, [], [])"
    using diff_signatures_loop_lacking [OF assms(3,4), of "[]" "[]" "[]"]
    by (simp add: diff_signatures_def raw_def)
  have dm: "dict_get (defaults I) m = Some (Default impl)" using assms(2) d by simp
  have "defaults_for_missing I raw [] [] = Inr ([], [(m, impl)])"
    using defaults_for_missing_covered [OF dm sub, of "[]" "[]"] ne by simp
  with diff have "verify I T = Inr [(m, impl)]" by (simp add: verify_def)
  with d show ?thesis by simp
qed

theorem verify_uses_default_witness:
  "InterfaceMeta_new 1 ''Shape'' [] Shape_body = Inr Shape
   \<and> dict_get (defaults Shape) ''describe'' = Some (Default describe_impl)
   \<and> static_get_type_attr Circle ''describe'' = Inl (AttributeError ''describe'')
   \<and> list_all (\<lambda>(n, iface_sig). n = ''describe'' \<or> member_ok Circle n iface_sig)
        (signatures Shape)
   \<and> verify Shape Circle = Inr [(''describe'', describe_impl)]"
proof -
  have b: "dict_get (defaults Shape) ''describe'' = Some (Default describe_impl)"
    by (simp add: Shape_def dict_get_def)
  have c: "static_get_type_attr Circle ''describe'' = Inl (AttributeError ''describe'')"
    by (simp add: example_defs lookup_defs)
  have d: "list_all (\<lambda>(n, iface_sig). n = ''describe'' \<or> member_ok Circle n iface_sig)
        (signatures Shape)"
    by (simp add: example_defs lookup_defs member_ok_def issubclass_kind_def compatible_def
        positionals_def keyword_only_def)
  from verify_uses_default [OF InterfaceMeta_new_Shape b c d]
  have "verify Shape Circle = Inr [(''describe'', describe_impl)]" by simp
  with InterfaceMeta_new_Shape b c d show ?thesis by simp
qed

section \<open>The three results of the diff\<close>

lemma diff_signatures_loop_classes:
  assumes "diff_signatures_loop T sigs missing mistyped mismatched = Inr (missing', mistyped', mismatched')"
    and "set sigs \<subseteq> S"
    and "\<forall>n \<in> set missing. isl (static_get_type_attr T n)"
    and "\<forall>n \<in> set (keys mismatched). \<exists>f impl_sig iface_sig.
           static_get_type_attr T n = Inr f \<and> TypedSignature f = Inr impl_sig
           \<and> (n, iface_sig) \<in> S
           \<and> \<not> compatible (sig_signature impl_sig) (sig_signature iface_sig)"
  shows "(\<forall>n \<in> set missing'. isl (static_get_type_attr T n))
       \<and> (\<forall>n \<in> set (keys mismatched'). \<exists>f impl_sig iface_sig.
           static_get_type_attr T n = Inr f \<and> TypedSignature f = Inr impl_sig
           \<and> (n, iface_sig) \<in> S
           \<and> \<not> compatible (sig_signature impl_sig) (sig_signature iface_sig))"
  using assms
proof (induction sigs arbitrary: missing mistyped mismatched)
  case Nil
  then show ?case by simp
next
  case (Cons a sigs)
  obtain n s where a: "a = (n, s)" by (cases a)
  show ?case
  proof (cases "static_get_type_attr T n")
    case (Inl e)
    with Cons.prems(1) a have
      rec: "diff_signatures_loop T sigs (missing @ [n]) mistyped mismatched = Inr (missing', mistyped', mismatched')"
      by simp
    have mis: "\<forall>k \<in> set (missing @ [n]). isl (static_get_type_attr T k)"
      using Cons.prems(3) Inl by auto
    have sub: "set sigs \<subseteq> S" using Cons.prems(2) by simp
    show ?thesis by (rule Cons.IH [OF rec sub mis Cons.prems(4)])
  next
    case (Inr f)
    with Cons.prems(1) a obtain impl_sig where ts: "TypedSignature f = Inr impl_sig"
      by (auto split: sum.splits)
    let ?mm = "if \<not> compatible (sig_signature impl_sig) (sig_signature s)
                  then dict_set mismatched n impl_sig else mismatched"
    from Cons.prems(1) a Inr ts obtain mt where
      rec: "diff_signatures_loop T sigs missing mt ?mm = Inr (missing', mistyped', mismatched')"
      by simp
    have "(n, s) \<in> S" using Cons.prems(2) a by simp
    then have mm: "\<forall>k \<in> set (keys ?mm). \<exists>f impl_sig iface_sig.
           static_get_type_attr T k = Inr f \<and> TypedSignature f = Inr impl_sig
           \<and> (k, iface_sig) \<in> S
           \<and> \<not> compatible (sig_signature impl_sig) (sig_signature iface_sig)"
      using Cons.prems(4) Inr ts by (auto simp: keys_dict_set)
    have sub: "set sigs \<subseteq> S" using Cons.prems(2) by simp
    show ?thesis by (rule Cons.IH [OF rec sub Cons.prems(3) mm])
  qed
qed

text \<open>
  C5, as the claim states it, fails: \<open>Blob\<close> defines \<open>area\<close> as a static method with
  one required parameter, where \<open>Shape\<close> declares a plain function without parameters,
  and \<open>area\<close> is filed under \<open>mistyped\<close> and under \<open>mismatched\<close>.
\<close>

theorem mismatched_and_mistyped_counterexample:
  "InterfaceMeta_new 1 ''Shape'' [] Shape_body = Inr Shape
   \<and> diff_signatures Shape Blob
       = Inr ([''describe''],
              [(''area'', StaticMethod)],
              [(''area'', \<lparr>sig_type = StaticMethod, sig_signature = [factor_param]\<rparr>)])"
  using InterfaceMeta_new_Shape
  by (simp add: diff_signatures_def example_defs lookup_defs issubclass_kind_def compatible_def
        positionals_def keyword_only_def)

text \<open>
  C5, amended: every name in \<open>mismatched\<close> is the name of a declared member that the
  static lookup finds on the candidate (it is not in \<open>missing\<close>) and whose call shape is
  not compatible with the declared one. The test of the kind is made apart from the test
  of the call shape, so the name may be in \<open>mistyped\<close> as well.
\<close>

theorem mismatched_members_present:
  assumes "diff_signatures I T = Inr (missing, mistyped, mismatched)"
    and "n \<in> set (keys mismatched)"
  shows "n \<notin> set missing
       \<and> (\<exists>f impl_sig iface_sig.
           static_get_type_attr T n = Inr f \<and> TypedSignature f = Inr impl_sig
           \<and> (n, iface_sig) \<in> set (signatures I)
           \<and> \<not> compatible (sig_signature impl_sig) (sig_signature iface_sig))"
proof -
  from diff_signatures_loop_classes [OF assms(1) [unfolded diff_signatures_def], of "set (signatures I)"]
  have m: "\<forall>n \<in> set missing. isl (static_get_type_attr T n)"
    and mm: "\<forall>n \<in> set (keys mismatched). \<exists>f impl_sig iface_sig.
           static_get_type_attr T n = Inr f \<and> TypedSignature f = Inr impl_sig
           \<and> (n, iface_sig) \<in> set (signatures I)
           \<and> \<not> compatible (sig_signature impl_sig) (sig_signature iface_sig)"
    by (simp_all add: keys_def)
  from mm assms(2) obtain f impl_sig iface_sig where
    *: "static_get_type_attr T n = Inr f" "TypedSignature f = Inr impl_sig"
       "(n, iface_sig) \<in> set (signatures I)"
       "\<not> compatible (sig_signature impl_sig) (sig_signature iface_sig)" by blast
  from *(1) m have "n \<notin> set missing" by auto
  with * show ?thesis by blast
qed

theorem mismatched_members_present_witness:
  "diff_signatures Shape Blob
       = Inr ([''describe''],
              [(''area'', StaticMethod)],
              [(''area'', \<lparr>sig_type = StaticMethod, sig_signature = [factor_param]\<rparr>)])
   \<and> ''area'' \<in> set (keys [(''area'', \<lparr>sig_type = StaticMethod, sig_signature = [factor_param]\<rparr>)])
   \<and> ''area'' \<notin> set [''describe'']
   \<and> (\<exists>f impl_sig iface_sig.
           static_get_type_attr Blob ''area'' = Inr f \<and> TypedSignature f = Inr impl_sig
           \<and> (''area'', iface_sig) \<in> set (signatures Shape)
           \<and> \<not> compatible (sig_signature impl_sig) (sig_signature iface_sig))"
proof -
  have a: "diff_signatures Shape Blob
       = Inr ([''describe''],
              [(''area'', StaticMethod)],
              [(''area'', \<lparr>sig_type = StaticMethod, sig_signature = [factor_param]\<rparr>)])"
    by (simp add: diff_signatures_def example_defs lookup_defs issubclass_kind_def compatible_def
        positionals_def keyword_only_def)
  have b: "''area'' \<in> set (keys [(''area'', \<lparr>sig_type = StaticMethod, sig_signature = [factor_param]\<rparr>)])"
    by (simp add: keys_def)
  from mismatched_members_present [OF a b] a b show ?thesis by simp
qed

section \<open>The memo of implements\<close>

lemma set_frozenset: "set (frozenset xs) = set xs"
  by (simp add: frozenset_def)

lemma frozenset_Nil_iff: "frozenset xs = [] \<longleftrightarrow> xs = []"
  by (simp add: frozenset_def)

lemma frozenset_eq_frozenset:
  "set xs = set ys \<Longrightarrow> frozenset_eq k (frozenset xs) = frozenset_eq k (frozenset ys)"
  by (simp add: frozenset_eq_def set_frozenset)

lemma memo_get_cong:
  "set xs = set ys \<Longrightarrow> memo_get memo (frozenset xs) = memo_get memo (frozenset ys)"
  by (simp add: memo_get_def frozenset_eq_def set_frozenset)

lemma expect_interfaces_ok:
  "list_all is_interface_obj xs \<Longrightarrow> \<exists>ifs. expect_interfaces xs = Inr ifs"
proof (induction xs)
  case Nil
  then show ?case by simp
next
  case (Cons x xs)
  then obtain I where "x = IfaceObj I" by (cases x) auto
  with Cons show ?case by auto
qed

lemma expect_interfaces_raises:
  "\<not> list_all is_interface_obj xs \<Longrightarrow> \<exists>msg. expect_interfaces xs = Inl (TypeError msg)"
proof (induction xs)
  case Nil
  then show ?case by simp
next
  case (Cons x xs)
  show ?case
  proof (cases x)
    case (IfaceObj I)
    with Cons.prems have "\<not> list_all is_interface_obj xs" by simp
    from Cons.IH [OF this] IfaceObj show ?thesis by auto
  qed simp_all
qed

lemma ImplementsMeta_call_base:
  "ifaces \<noteq> [] \<Longrightarrow> ImplementsMeta_call oid name ancs clsdict ifaces
     = Inr (PyType oid name clsdict ancs Meta_ImplementsMeta (Some ifaces))"
  by (simp add: ImplementsMeta_call_def ImplementsMeta_new_def)

lemma getattr_interfaces_own:
  "getattr_interfaces (PyType oid name clsdict ancs m (Some ifaces)) = Inr ifaces"
  by (simp add: getattr_interfaces_def mro_def)

lemma implements_miss:
  assumes "args \<noteq> []" and "memo_get memo (frozenset args) = None"
    and "list_all is_interface_obj args"
  shows "\<exists>name doc. implements obj oid args memo
           = (Inr (PyType oid name [(''__doc__'', Str doc)] [obj] Meta_ImplementsMeta
                     (Some (frozenset args))),
              memo_set memo (frozenset args)
                (PyType oid name [(''__doc__'', Str doc)] [obj] Meta_ImplementsMeta
                   (Some (frozenset args))))"
proof -
  from assms(3) have "list_all is_interface_obj (frozenset args)"
    by (simp add: list_all_iff set_frozenset)
  from expect_interfaces_ok [OF this] obtain ifs where
    ifs: "expect_interfaces (frozenset args) = Inr ifs" ..
  from assms(1) have ne: "frozenset args \<noteq> []" by (simp add: frozenset_Nil_iff)
  show ?thesis
    using assms(1,2) ifs
    by (simp add: implements_def Let_def ImplementsMeta_call_base [OF ne]
        getattr_interfaces_own)
qed

lemma implements_hit:
  "args \<noteq> [] \<Longrightarrow> memo_get memo (frozenset args) = Some t
   \<Longrightarrow> implements obj oid args memo = (Inr t, memo)"
  by (simp add: implements_def)

lemma implements_bad_argument:
  assumes "memo_get memo (frozenset args) = None" and "\<not> list_all is_interface_obj args"
  shows "\<exists>msg. implements obj oid args memo = (Inl (TypeError msg), memo)"
proof -
  from assms(2) have ne: "args \<noteq> []" by auto
  from assms(2) have "\<not> list_all is_interface_obj (frozenset args)"
    by (simp add: list_all_iff set_frozenset)
  from expect_interfaces_raises [OF this] obtain msg where
    "expect_interfaces (frozenset args) = Inl (TypeError msg)" ..
  with assms(1) ne show ?thesis by (simp add: implements_def)
qed


lemma memo_get_append:
  "memo_get (m1 @ m2) k = (case memo_get m1 k of Some t \<Rightarrow> Some t | None \<Rightarrow> memo_get m2 k)"
  by (induction m1) (auto simp: memo_get_def)

lemma memo_set_miss: "memo_get memo k = None \<Longrightarrow> memo_set memo k t = memo @ [(k, t)]"
  by (induction memo) (auto simp: memo_get_def split: if_splits)

lemma memo_get_Some_entry:
  "memo_get memo k = Some t \<Longrightarrow> \<exists>k'. (k', t) \<in> set memo \<and> frozenset_eq k' k"
  by (induction memo) (auto simp: memo_get_def split: if_splits)

lemma frozenset_eq_refl: "frozenset_eq k k"
  by (simp add: frozenset_eq_def)

text \<open>A call leaves the memo as it is, or adds one entry under a key that had none.\<close>

lemma implements_memo_cases:
  "snd (implements obj oid args memo) = memo
   \<or> (args \<noteq> [] \<and> list_all is_interface_obj args \<and> memo_get memo (frozenset args) = None
      \<and> (\<exists>name doc. snd (implements obj oid args memo)
            = memo @ [(frozenset args,
                       PyType oid name [(''__doc__'', Str doc)] [obj] Meta_ImplementsMeta
                         (Some (frozenset args)))]))"
proof (cases "args = []")
  case True
  then show ?thesis by (simp add: implements_def)
next
  case ne: False
  show ?thesis
  proof (cases "memo_get memo (frozenset args)")
    case (Some t)
    from implements_hit [OF ne Some] show ?thesis by simp
  next
    case None
    show ?thesis
    proof (cases "list_all is_interface_obj args")
      case True
      from implements_miss [OF ne None True, of obj oid] memo_set_miss [OF None] ne None True
      show ?thesis by auto
    next
      case False
      from implements_bad_argument [OF None False, of obj oid] show ?thesis by auto
    qed
  qed
qed

lemma memo_get_persists:
  assumes "memo_get memo k = Some t"
  shows "memo_get (snd (implements obj oid args memo)) k = Some t"
  using implements_memo_cases [of obj oid args memo] assms
  by (auto simp: memo_get_append)

lemma memo_get_after:
  "memo_get memo k = Some t \<Longrightarrow> memo_get (memo_after obj calls memo) k = Some t"
proof (induction calls arbitrary: memo)
  case Nil
  then show ?case by simp
next
  case (Cons c calls)
  obtain oid args where c: "c = (oid, args)" by (cases c)
  from Cons.prems have "memo_get (snd (implements obj oid args memo)) k = Some t"
    by (rule memo_get_persists)
  from Cons.IH [OF this] c show ?case by simp
qed

lemma memo_ok_implements:
  assumes "memo_ok obj memo"
  shows "memo_ok obj (snd (implements obj oid args memo))"
proof -
  from implements_memo_cases [of obj oid args memo]
  show ?thesis
  proof
    assume "snd (implements obj oid args memo) = memo"
    with assms show ?thesis by simp
  next
    assume "args \<noteq> [] \<and> list_all is_interface_obj args \<and> memo_get memo (frozenset args) = None
      \<and> (\<exists>name doc. snd (implements obj oid args memo)
            = memo @ [(frozenset args,
                       PyType oid name [(''__doc__'', Str doc)] [obj] Meta_ImplementsMeta
                         (Some (frozenset args)))])"
    then obtain name doc where ne: "args \<noteq> []" and ok: "list_all is_interface_obj args"
      and m: "snd (implements obj oid args memo)
            = memo @ [(frozenset args,
                       PyType oid name [(''__doc__'', Str doc)] [obj] Meta_ImplementsMeta
                         (Some (frozenset args)))]" by blast
    have "memo_entry_ok obj (frozenset args)
            (PyType oid name [(''__doc__'', Str doc)] [obj] Meta_ImplementsMeta
               (Some (frozenset args)))"
      using ne ok by (simp add: memo_entry_ok_def frozenset_def list_all_iff)
    with assms m show ?thesis by (simp add: memo_ok_def)
  qed
qed

lemma memo_ok_after: "memo_ok obj memo \<Longrightarrow> memo_ok obj (memo_after obj calls memo)"
proof (induction calls arbitrary: memo)
  case Nil
  then show ?case by simp
next
  case (Cons c calls)
  obtain oid args where c: "c = (oid, args)" by (cases c)
  from Cons.prems have "memo_ok obj (snd (implements obj oid args memo))"
    by (rule memo_ok_implements)
  from Cons.IH [OF this] c show ?case by simp
qed

lemma memo_ok_empty: "memo_ok obj []"
  by (simp add: memo_ok_def)

lemma memo_ok_get:
  assumes "memo_ok obj memo" and "memo_get memo k = Some t"
  shows "\<exists>k'. frozenset_eq k' k \<and> memo_entry_ok obj k' t"
proof -
  from memo_get_Some_entry [OF assms(2)] obtain k' where
    "(k', t) \<in> set memo" "frozenset_eq k' k" by blast
  with assms(1) show ?thesis by (auto simp: memo_ok_def list_all_iff)
qed

lemma memo_ok_bad_argument:
  assumes "memo_ok obj memo" and "\<not> list_all is_interface_obj args"
  shows "memo_get memo (frozenset args) = None"
proof (cases "memo_get memo (frozenset args)")
  case None
  then show ?thesis .
next
  case (Some t)
  from memo_ok_get [OF assms(1) Some] obtain k' where
    "frozenset_eq k' (frozenset args)" "list_all is_interface_obj k'"
    by (auto simp: memo_entry_ok_def)
  then have "list_all is_interface_obj args"
    by (simp add: frozenset_eq_def set_frozenset list_all_iff)
  with assms(2) show ?thesis by simp
qed

text \<open>
  C7: whatever calls came before, \<open>implements()\<close> without arguments raises the
  \<open>TypeError\<close> that asks for at least one interface; with an argument that is not an
  interface it raises a \<open>TypeError\<close>; with arguments that are all interfaces it returns
  a type.
\<close>

theorem implements_raises_or_returns:
  "(if args = []
    then fst (implements obj oid args (memo_after obj calls []))
           = Inl (TypeError ''implements() requires at least one interface'')
    else if list_all is_interface_obj args
    then \<exists>t. fst (implements obj oid args (memo_after obj calls [])) = Inr t
    else \<exists>msg. fst (implements obj oid args (memo_after obj calls [])) = Inl (TypeError msg))"
proof -
  let ?memo = "memo_after obj calls []"
  have ok: "memo_ok obj ?memo" by (rule memo_ok_after [OF memo_ok_empty])
  show ?thesis
  proof (cases "args = []")
    case True
    then show ?thesis by (simp add: implements_def)
  next
    case ne: False
    show ?thesis
    proof (cases "list_all is_interface_obj args")
      case True
      show ?thesis
      proof (cases "memo_get ?memo (frozenset args)")
        case None
        from implements_miss [OF ne None True, of obj oid] ne True show ?thesis by auto
      next
        case (Some t)
        from implements_hit [OF ne Some, of obj oid] ne True show ?thesis by auto
      qed
    next
      case False
      from implements_bad_argument [OF memo_ok_bad_argument [OF ok False] False, of obj oid]
        ne False
      show ?thesis by auto
    qed
  qed
qed

lemma implements_same_set:
  assumes "set xs = set ys" and "xs \<noteq> []" and "list_all is_interface_obj xs"
    and "implements obj oid1 xs memo = (r, memo1)"
  shows "\<exists>t. r = Inr t \<and> memo_get memo1 (frozenset ys) = Some t"
proof (cases "memo_get memo (frozenset xs)")
  case None
  from implements_miss [OF assms(2) None assms(3), of obj oid1] assms(4)
  obtain t where r: "r = Inr t" and m: "memo1 = memo_set memo (frozenset xs) t" by auto
  from m memo_set_miss [OF None] have "memo1 = memo @ [(frozenset xs, t)]" by simp
  moreover have "memo_get memo (frozenset ys) = None"
    using None memo_get_cong [OF assms(1)] by simp
  moreover have "frozenset_eq (frozenset xs) (frozenset ys)"
    using assms(1) by (simp add: frozenset_eq_def set_frozenset)
  ultimately have "memo_get memo1 (frozenset ys) = Some t"
    by (simp add: memo_get_append) (simp add: memo_get_def)
  with r show ?thesis by simp
next
  case (Some t)
  from implements_hit [OF assms(2) Some, of obj oid1] assms(4)
  have "r = Inr t" "memo1 = memo" by auto
  with Some memo_get_cong [OF assms(1)] show ?thesis by simp
qed

text \<open>
  C2: a call of \<open>implements\<close> with interfaces returns a type, and every later call
  with the same interfaces, in any order of the arguments, returns that same class
  object, whatever identity a new class would have got and whatever calls came between.
\<close>

theorem implements_order_independent:
  assumes "set xs = set ys" and "xs \<noteq> []" and "list_all is_interface_obj xs"
    and "implements obj oid1 xs memo = (r, memo1)"
  shows "\<exists>t. r = Inr t
           \<and> implements obj oid2 ys (memo_after obj calls memo1)
               = (Inr t, memo_after obj calls memo1)"
proof -
  from implements_same_set [OF assms] obtain t where
    r: "r = Inr t" and g: "memo_get memo1 (frozenset ys) = Some t" by blast
  from assms(1,2) have ne: "ys \<noteq> []" by auto
  from memo_get_after [OF g] have "memo_get (memo_after obj calls memo1) (frozenset ys) = Some t" .
  from implements_hit [OF ne this] r show ?thesis by simp
qed

lemma frozenset_replicate: "frozenset (replicate (Suc n) x) = [x]"
  by (induction n) (simp_all add: frozenset_def)

text \<open>
  C10: passing the same interface several times is passing it once: the arguments become
  the same frozenset before the memo is consulted and before the class is made, so both
  calls are the same computation, and a call with the interface repeated returns the
  class object that the memo holds for the interface alone.
\<close>

theorem implements_repeated_argument:
  assumes "implements obj oid1 (replicate (Suc j) (IfaceObj I)) memo = (r, memo1)"
  shows "implements obj oid (replicate (Suc n) (IfaceObj I)) memo0
           = implements obj oid [IfaceObj I] memo0
       \<and> (\<exists>t. r = Inr t
             \<and> implements obj oid2 (replicate (Suc k) (IfaceObj I)) (memo_after obj calls memo1)
                 = (Inr t, memo_after obj calls memo1))"
proof -
  have "frozenset [IfaceObj I] = [IfaceObj I]" by (simp add: frozenset_def)
  then have a: "implements obj oid (replicate (Suc n) (IfaceObj I)) memo0
           = implements obj oid [IfaceObj I] memo0"
    unfolding implements_def frozenset_replicate by simp
  have s: "set (replicate (Suc j) (IfaceObj I)) = set (replicate (Suc k) (IfaceObj I))"
    by (simp only: set_replicate_Suc)
  have ne: "replicate (Suc j) (IfaceObj I) \<noteq> []" by simp
  have ok: "list_all is_interface_obj (replicate (Suc j) (IfaceObj I))"
    by (simp add: list_all_iff)
  from implements_same_set [OF s ne ok assms] obtain t where
    r: "r = Inr t" and g: "memo_get memo1 (frozenset (replicate (Suc k) (IfaceObj I))) = Some t"
    by blast
  from memo_get_after [OF g]
  have "memo_get (memo_after obj calls memo1) (frozenset (replicate (Suc k) (IfaceObj I))) = Some t" .
  from implements_hit [OF _ this] r a show ?thesis by simp
qed

section \<open>Defaults from several interfaces\<close>

lemma implements_result_ok:
  assumes "memo_ok obj memo" and "implements obj oid args memo = (Inr t, memo1)"
  shows "\<exists>k. set k = set args \<and> memo_entry_ok obj k t"
proof -
  from assms(2) have ne: "args \<noteq> []" by (auto simp: implements_def)
  show ?thesis
  proof (cases "memo_get memo (frozenset args)")
    case (Some t')
    from implements_hit [OF ne Some, of obj oid] assms(2) have "t' = t" by simp
    with memo_ok_get [OF assms(1) Some] show ?thesis
      by (auto simp: frozenset_eq_def set_frozenset)
  next
    case None
    show ?thesis
    proof (cases "list_all is_interface_obj args")
      case True
      from implements_miss [OF ne None True, of obj oid] assms(2)
      obtain name doc where
        "t = PyType oid name [(''__doc__'', Str doc)] [obj] Meta_ImplementsMeta (Some (frozenset args))"
        by auto
      with ne True have "memo_entry_ok obj (frozenset args) t"
        by (simp add: memo_entry_ok_def frozenset_def list_all_iff)
      then show ?thesis using set_frozenset by blast
    next
      case False
      from implements_bad_argument [OF None False, of obj oid] assms(2) show ?thesis by auto
    qed
  qed
qed

lemma two_element_list:
  assumes "distinct k" and "set k = {a, b}" and "a \<noteq> b"
  shows "k = [a, b] \<or> k = [b, a]"
proof -
  from assms have "length k = 2" using distinct_card [of k] by simp
  then obtain x y where "k = [x, y]"
    by (cases k; cases "tl k") auto
  with assms(2,3) show ?thesis by (auto simp: doubleton_eq_iff)
qed

lemma diff_signatures_loop_missing:
  "diff_signatures_loop T sigs missing mistyped mismatched = Inr (missing', mistyped', mismatched')
   \<Longrightarrow> m \<in> set missing \<or> (m \<in> set (keys sigs) \<and> isl (static_get_type_attr T m))
   \<Longrightarrow> m \<in> set missing'"
proof (induction sigs arbitrary: missing mistyped mismatched)
  case Nil
  then show ?case by (simp add: keys_def)
next
  case (Cons a sigs)
  obtain n s where a: "a = (n, s)" by (cases a)
  show ?case
  proof (cases "static_get_type_attr T n")
    case (Inl e)
    with Cons.prems(1) a have
      rec: "diff_signatures_loop T sigs (missing @ [n]) mistyped mismatched
              = Inr (missing', mistyped', mismatched')" by simp
    have "m \<in> set (missing @ [n]) \<or> (m \<in> set (keys sigs) \<and> isl (static_get_type_attr T m))"
      using Cons.prems(2) a by (auto simp: keys_def)
    then show ?thesis by (rule Cons.IH [OF rec])
  next
    case (Inr f)
    with Cons.prems(1) a obtain mt mm where
      rec: "diff_signatures_loop T sigs missing mt mm = Inr (missing', mistyped', mismatched')"
      by (auto split: sum.splits)
    have "m \<in> set missing \<or> (m \<in> set (keys sigs) \<and> isl (static_get_type_attr T m))"
      using Cons.prems(2) a Inr by (auto simp: keys_def)
    then show ?thesis by (rule Cons.IH [OF rec])
  qed
qed

lemma defaults_for_missing_covers:
  assumes "dict_get (defaults I) m = Some (Default impl)"
  shows "defaults_for_missing I xs missing dtu = Inr (missing', dtu')
   \<Longrightarrow> m \<in> set xs \<or> dict_get dtu m = Some impl
   \<Longrightarrow> dict_get dtu' m = Some impl"
proof (induction xs arbitrary: missing dtu)
  case Nil
  then show ?case by simp
next
  case (Cons x xs)
  show ?case
  proof (cases "dict_get (defaults I) x")
    case None
    with Cons.prems(1) have
      rec: "defaults_for_missing I xs (missing @ [x]) dtu = Inr (missing', dtu')" by simp
    from None assms have "x \<noteq> m" by auto
    with Cons.prems(2) have "m \<in> set xs \<or> dict_get dtu m = Some impl" by auto
    then show ?thesis by (rule Cons.IH [OF rec])
  next
    case (Some d)
    with Cons.prems(1) obtain i where d: "d = Default i"
      and rec: "defaults_for_missing I xs missing (dict_set dtu x i) = Inr (missing', dtu')"
      by (cases d) auto
    have "m \<in> set xs \<or> dict_get (dict_set dtu x i) m = Some impl"
      using Cons.prems(2) Some d assms by (auto simp: dict_get_dict_set)
    then show ?thesis by (rule Cons.IH [OF rec])
  qed
qed

lemma defaults_for_missing_distinct:
  "defaults_for_missing I xs missing dtu = Inr (missing', dtu')
   \<Longrightarrow> distinct (keys dtu) \<Longrightarrow> distinct (keys dtu')"
proof (induction xs arbitrary: missing dtu)
  case Nil
  then show ?case by simp
next
  case (Cons x xs)
  show ?case
  proof (cases "dict_get (defaults I) x")
    case None
    with Cons.prems(1) have
      rec: "defaults_for_missing I xs (missing @ [x]) dtu = Inr (missing', dtu')" by simp
    from Cons.IH [OF rec Cons.prems(2)] show ?thesis .
  next
    case (Some d)
    with Cons.prems(1) obtain i where d: "d = Default i"
      and rec: "defaults_for_missing I xs missing (dict_set dtu x i) = Inr (missing', dtu')"
      by (cases d) auto
    from Cons.IH [OF rec distinct_dict_set [OF Cons.prems(2)]] show ?thesis .
  qed
qed

text \<open>What a successful \<open>verify\<close> returns for a member that the type lacks.\<close>

lemma verify_resolves_lacking:
  assumes "verify I T = Inr r" and "m \<in> set (keys (signatures I))"
    and "static_get_type_attr T m = Inl e"
    and "dict_get (defaults I) m = Some (Default impl)"
  shows "dict_get r m = Some impl \<and> distinct (keys r)"
proof -
  from assms(1) obtain raw mt mm missing where
    diff: "diff_signatures I T = Inr (raw, mt, mm)"
    and dfm: "defaults_for_missing I raw [] [] = Inr (missing, r)"
    by (auto simp: verify_def split: sum.splits prod.splits if_splits)
  have "m \<in> set raw"
    using diff_signatures_loop_missing [OF diff [unfolded diff_signatures_def], of m] assms(2,3)
    by simp
  with defaults_for_missing_covers [OF assms(4) dfm] have "dict_get r m = Some impl" by simp
  moreover have "distinct (keys r)"
    using defaults_for_missing_distinct [OF dfm] by (simp add: keys_def)
  ultimately show ?thesis by simp
qed

lemma record_defaults_providers:
  "distinct (keys r) \<Longrightarrow> record_defaults iface r impls provs = (impls', provs')
   \<Longrightarrow> dict_get provs' m
       = (if m \<in> set (keys r)
          then Some ((case dict_get provs m of None \<Rightarrow> [] | Some xs \<Rightarrow> xs) @ [iface])
          else dict_get provs m)"
proof (induction r arbitrary: impls provs)
  case Nil
  then show ?case by (simp add: keys_def)
next
  case (Cons a r)
  obtain n v where a: "a = (n, v)" by (cases a)
  from Cons.prems(1) a have d: "distinct (keys r)" and n: "n \<notin> set (keys r)"
    by (simp_all add: keys_def)
  from Cons.prems(2) a have
    rec: "record_defaults iface r (dict_set impls n v) (defaultdict_append provs n iface)
            = (impls', provs')" by simp
  from Cons.IH [OF d rec] n a show ?case
    by (auto simp: keys_def defaultdict_append_def dict_get_dict_set)
qed

lemma dict_get_valfilter:
  "dict_get d k = Some v \<Longrightarrow> f v \<Longrightarrow> dict_get (valfilter f d) k = Some v"
  by (induction d) (auto simp: dict_get_def valfilter_def)

lemma interfaces_of_subclass:
  assumes "memo_entry_ok (object_type vs) [a, b] base" and "a \<noteq> b"
  shows "interfaces (PyType oid name clsdict (mro base) Meta_ImplementsMeta None) = Inr [a, b]"
proof -
  obtain i n v anc mt oi where base: "base = PyType i n v anc mt oi" by (cases base)
  from assms(1) base have "anc = [object_type vs]" "mt = Meta_ImplementsMeta" "oi = Some [a, b]"
    by (simp_all add: memo_entry_ok_def)
  with assms(2) base show ?thesis
    by (simp add: interfaces_def interfaces_with_duplicates_def getattr_interfaces_def mro_def
        is_a_ImplementsMeta_def object_type_def unique_def)
qed

lemma verify_interfaces_errors_grow:
  "verify_interfaces T todo errs impls provs = Inr (errs', impls', provs')
   \<Longrightarrow> errs \<noteq> [] \<Longrightarrow> errs' \<noteq> []"
proof (induction todo arbitrary: errs impls provs)
  case Nil
  then show ?case by simp
next
  case (Cons x rest)
  from Cons.prems(1) obtain iface where x: "x = IfaceObj iface" by (cases x) auto
  show ?case
  proof (cases "verify iface T")
    case (Inl e)
    with Cons.prems(1) x have
      rec: "verify_interfaces T rest (errs @ [e]) impls provs = Inr (errs', impls', provs')"
      by (auto split: if_splits)
    from Cons.IH [OF rec] show ?thesis by simp
  next
    case (Inr r)
    obtain i p where rd: "record_defaults iface r impls provs = (i, p)"
      by (cases "record_defaults iface r impls provs")
    with Cons.prems(1) Inr x have
      rec: "verify_interfaces T rest errs i p = Inr (errs', impls', provs')" by simp
    from Cons.IH [OF rec Cons.prems(2)] show ?thesis .
  qed
qed

lemma verify_interfaces_two:
  assumes "verify_interfaces T [IfaceObj A, IfaceObj B] [] [] [] = Inr ([], impls, provs)"
  shows "\<exists>rA rB. verify A T = Inr rA \<and> verify B T = Inr rB"
proof (cases "verify A T")
  case (Inl e)
  with assms have
    "verify_interfaces T [IfaceObj B] [e] [] [] = Inr ([], impls, provs)"
    by (auto split: if_splits)
  from verify_interfaces_errors_grow [OF this] show ?thesis by simp
next
  case rA: (Inr rA)
  obtain i p where rd: "record_defaults A rA [] [] = (i, p)"
    by (cases "record_defaults A rA [] []")
  show ?thesis
  proof (cases "verify B T")
    case (Inl e)
    with assms rA rd show ?thesis by (auto split: if_splits)
  next
    case (Inr rB)
    with rA show ?thesis by simp
  qed
qed

lemma ImplementsMeta_new_Inr:
  assumes "ImplementsMeta_new oid name ancs clsdict [] = Inr t"
  shows "\<exists>todo impls provs.
           interfaces (PyType oid name clsdict ancs Meta_ImplementsMeta None) = Inr todo
         \<and> verify_interfaces (PyType oid name clsdict ancs Meta_ImplementsMeta None) todo [] [] []
             = Inr ([], impls, provs)
         \<and> valfilter (\<lambda>ifaces. length ifaces > 1) provs = []"
proof -
  let ?T = "PyType oid name clsdict ancs Meta_ImplementsMeta None"
  from assms obtain todo where todo: "interfaces ?T = Inr todo"
    by (cases "interfaces ?T") (simp_all add: ImplementsMeta_new_def)
  from assms todo obtain errs impls provs where
    v: "verify_interfaces ?T todo [] [] [] = Inr (errs, impls, provs)"
    by (cases "verify_interfaces ?T todo [] [] []") (auto simp: ImplementsMeta_new_def)
  show ?thesis
  proof (cases "valfilter (\<lambda>ifaces. length ifaces > 1) provs = []")
    case True
    with assms todo v have "errs = []"
      by (auto simp: ImplementsMeta_new_def Let_def split: list.splits)
    with todo v True show ?thesis by simp
  next
    case False
    with assms todo v show ?thesis
      by (auto simp: ImplementsMeta_new_def Let_def split: list.splits)
  qed
qed

lemma conflict_when_verified:
  assumes todo: "interfaces (PyType oid name clsdict ancs Meta_ImplementsMeta None)
                   = Inr [IfaceObj A, IfaceObj B]"
    and rA: "verify A (PyType oid name clsdict ancs Meta_ImplementsMeta None) = Inr rA"
    and rB: "verify B (PyType oid name clsdict ancs Meta_ImplementsMeta None) = Inr rB"
    and mA: "dict_get rA m = Some ia" and dA: "distinct (keys rA)"
    and mB: "dict_get rB m = Some ib" and dB: "distinct (keys rB)"
  shows "\<exists>impls provs.
           verify_interfaces (PyType oid name clsdict ancs Meta_ImplementsMeta None)
             [IfaceObj A, IfaceObj B] [] [] [] = Inr ([], impls, provs)
         \<and> dict_get (valfilter (\<lambda>ifaces. length ifaces > 1) provs) m = Some [A, B]
         \<and> ImplementsMeta_new oid name ancs clsdict []
             = Inl (conflicting_defaults name (valfilter (\<lambda>ifaces. length ifaces > 1) provs))"
proof -
  let ?T = "PyType oid name clsdict ancs Meta_ImplementsMeta None"
  obtain i1 p1 where r1: "record_defaults A rA [] [] = (i1, p1)"
    by (cases "record_defaults A rA [] []")
  obtain i2 p2 where r2: "record_defaults B rB i1 p1 = (i2, p2)"
    by (cases "record_defaults B rB i1 p1")
  from mA have kA: "m \<in> set (keys rA)" using dict_get_None_iff [of rA m] by auto
  from mB have kB: "m \<in> set (keys rB)" using dict_get_None_iff [of rB m] by auto
  have p1: "dict_get p1 m = Some [A]"
    using record_defaults_providers [OF dA r1, of m] kA by (simp add: dict_get_def)
  have p2: "dict_get p2 m = Some [A, B]"
    using record_defaults_providers [OF dB r2, of m] kB p1 by simp
  have v: "verify_interfaces ?T [IfaceObj A, IfaceObj B] [] [] [] = Inr ([], i2, p2)"
    using rA rB r1 r2 by simp
  have dup: "dict_get (valfilter (\<lambda>ifaces. length ifaces > 1) p2) m = Some [A, B]"
    by (rule dict_get_valfilter [OF p2]) simp
  then have ne: "valfilter (\<lambda>ifaces. length ifaces > 1) p2 \<noteq> []"
    by (auto simp: dict_get_def)
  have "ImplementsMeta_new oid name ancs clsdict []
          = Inl (conflicting_defaults name (valfilter (\<lambda>ifaces. length ifaces > 1) p2))"
    using todo v ne by (simp add: ImplementsMeta_new_def Let_def)
  with v dup show ?thesis by blast
qed

lemma conflict_two_interfaces:
  assumes todo: "interfaces (PyType oid name clsdict ancs Meta_ImplementsMeta None)
                   = Inr [IfaceObj A, IfaceObj B]"
    and sA: "m \<in> set (keys (signatures A))" and sB: "m \<in> set (keys (signatures B))"
    and dA: "dict_get (defaults A) m = Some (Default ia)"
    and dB: "dict_get (defaults B) m = Some (Default ib)"
    and lacks: "static_get_type_attr (PyType oid name clsdict ancs Meta_ImplementsMeta None) m
                  = Inl e"
  shows "(\<exists>err. ImplementsMeta_new oid name ancs clsdict [] = Inl err)
       \<and> (\<forall>rA rB. verify A (PyType oid name clsdict ancs Meta_ImplementsMeta None) = Inr rA
              \<longrightarrow> verify B (PyType oid name clsdict ancs Meta_ImplementsMeta None) = Inr rB
              \<longrightarrow> (\<exists>conflicts. ImplementsMeta_new oid name ancs clsdict []
                                  = Inl (conflicting_defaults name conflicts)
                               \<and> dict_get conflicts m = Some [A, B]))"
proof -
  let ?T = "PyType oid name clsdict ancs Meta_ImplementsMeta None"
  have second: "\<exists>conflicts. ImplementsMeta_new oid name ancs clsdict []
                                  = Inl (conflicting_defaults name conflicts)
                               \<and> dict_get conflicts m = Some [A, B]"
    if rA: "verify A ?T = Inr rA" and rB: "verify B ?T = Inr rB" for rA rB
  proof -
    from verify_resolves_lacking [OF rA sA lacks dA]
    have a: "dict_get rA m = Some ia" "distinct (keys rA)" by simp_all
    from verify_resolves_lacking [OF rB sB lacks dB]
    have b: "dict_get rB m = Some ib" "distinct (keys rB)" by simp_all
    from conflict_when_verified [OF todo rA rB a b] show ?thesis by blast
  qed
  have first: "\<exists>err. ImplementsMeta_new oid name ancs clsdict [] = Inl err"
  proof (cases "ImplementsMeta_new oid name ancs clsdict []")
    case (Inl err)
    then show ?thesis by simp
  next
    case (Inr t)
    from ImplementsMeta_new_Inr [OF Inr] todo obtain impls provs where
      "verify_interfaces ?T [IfaceObj A, IfaceObj B] [] [] [] = Inr ([], impls, provs)"
      by auto
    from verify_interfaces_two [OF this] obtain rA rB where
      "verify A ?T = Inr rA" "verify B ?T = Inr rB" by blast
    from second [OF this] Inr show ?thesis by auto
  qed
  from first second show ?thesis by blast
qed

lemma class_statement_Inl:
  "ImplementsMeta_new oid name ancs clsdict [] = Inl err
   \<Longrightarrow> class_statement oid name ancs clsdict = Inl err"
  by (simp add: class_statement_def ImplementsMeta_call_def empty_set_def)

lemma conflict_sections_lists:
  "dict_get conflicts m = Some ps
   \<Longrightarrow> \<exists>pre post. conflict_sections conflicts
         = pre @ newline @ newline
           @ ''The following interfaces provided default implementations for ''
           @ [CHR 0x27] @ m @ [CHR 0x27] @ '':'' @ newline
           @ join newline (sort (map (\<lambda>iface. ''  - '' @ iface_name iface) ps))
           @ post"
proof (induction conflicts)
  case Nil
  then show ?case by (simp add: dict_get_def)
next
  case (Cons a rest)
  obtain k v where a: "a = (k, v)" by (cases a)
  show ?case
  proof (cases "k = m")
    case True
    with Cons.prems a have "v = ps" by (simp add: dict_get_def)
    with True a have "conflict_sections (a # rest)
         = [] @ newline @ newline
           @ ''The following interfaces provided default implementations for ''
           @ [CHR 0x27] @ m @ [CHR 0x27] @ '':'' @ newline
           @ join newline (sort (map (\<lambda>iface. ''  - '' @ iface_name iface) ps))
           @ conflict_sections rest"
      by (simp add: repr_str_def)
    then show ?thesis by blast
  next
    case False
    with Cons.prems a have "dict_get rest m = Some ps" by (simp add: dict_get_def)
    from Cons.IH [OF this] obtain pre post where
      "conflict_sections rest
         = pre @ newline @ newline
           @ ''The following interfaces provided default implementations for ''
           @ [CHR 0x27] @ m @ [CHR 0x27] @ '':'' @ newline
           @ join newline (sort (map (\<lambda>iface. ''  - '' @ iface_name iface) ps))
           @ post" by blast
    with a have "conflict_sections (a # rest)
         = (newline @ newline
            @ ''The following interfaces provided default implementations for ''
            @ repr_str k @ '':'' @ newline
            @ join newline (sort (map (\<lambda>iface. ''  - '' @ iface_name iface) v)) @ pre)
           @ newline @ newline
           @ ''The following interfaces provided default implementations for ''
           @ [CHR 0x27] @ m @ [CHR 0x27] @ '':'' @ newline
           @ join newline (sort (map (\<lambda>iface. ''  - '' @ iface_name iface) ps))
           @ post"
      by simp
    then show ?thesis by blast
  qed
qed

lemma sort_two_commute: "sort [a, b] = sort [b, a]"
  by auto

text \<open>The text of the diagnostic when its mapping has the two interfaces under \<open>m\<close>.\<close>

lemma conflicting_defaults_text:
  assumes "dict_get conflicts m = Some [A, B]" and "{A, B} = {I1, I2}"
  shows "\<exists>pre post. conflicting_defaults name conflicts
           = InvalidImplementation
               (newline @ ''class '' @ name
                @ '' received conflicting default implementations:'' @ pre
                @ newline @ newline
                @ ''The following interfaces provided default implementations for ''
                @ [CHR 0x27] @ m @ [CHR 0x27] @ '':'' @ newline
                @ join newline (sort [''  - '' @ iface_name I1, ''  - '' @ iface_name I2])
                @ post)"
proof -
  from assms(2) have "(A = I1 \<and> B = I2) \<or> (A = I2 \<and> B = I1)"
    by (auto simp: doubleton_eq_iff)
  then have l: "sort (map (\<lambda>iface. ''  - '' @ iface_name iface) [A, B])
                  = sort [''  - '' @ iface_name I1, ''  - '' @ iface_name I2]"
  proof
    assume "A = I1 \<and> B = I2"
    then show ?thesis by (simp only: list.map)
  next
    assume "A = I2 \<and> B = I1"
    then show ?thesis by (simp only: list.map) (rule sort_two_commute)
  qed
  from conflict_sections_lists [OF assms(1)] obtain pre post where
    "conflict_sections conflicts
         = pre @ newline @ newline
           @ ''The following interfaces provided default implementations for ''
           @ [CHR 0x27] @ m @ [CHR 0x27] @ '':'' @ newline
           @ join newline (sort (map (\<lambda>iface. ''  - '' @ iface_name iface) [A, B]))
           @ post" by blast
  with l have "conflicting_defaults name conflicts
           = InvalidImplementation
               (newline @ ''class '' @ name
                @ '' received conflicting default implementations:'' @ pre
                @ newline @ newline
                @ ''The following interfaces provided default implementations for ''
                @ [CHR 0x27] @ m @ [CHR 0x27] @ '':'' @ newline
                @ join newline (sort [''  - '' @ iface_name I1, ''  - '' @ iface_name I2])
                @ post)"
    by (simp only: conflicting_defaults_def)
  then show ?thesis by blast
qed

lemma conflict_either_order:
  assumes "(\<exists>err. ImplementsMeta_new oid name ancs clsdict [] = Inl err)
       \<and> (\<forall>rA rB. verify A T = Inr rA \<longrightarrow> verify B T = Inr rB
              \<longrightarrow> (\<exists>conflicts. ImplementsMeta_new oid name ancs clsdict []
                                  = Inl (conflicting_defaults name conflicts)
                               \<and> dict_get conflicts m = Some [A, B]))"
    and "{A, B} = {I1, I2}"
  shows "(\<exists>err. class_statement oid name ancs clsdict = Inl err)
       \<and> (\<forall>r1 r2. verify I1 T = Inr r1 \<longrightarrow> verify I2 T = Inr r2
         \<longrightarrow> (\<exists>conflicts providers pre post.
                class_statement oid name ancs clsdict
                  = Inl (conflicting_defaults name conflicts)
              \<and> dict_get conflicts m = Some providers \<and> set providers = {I1, I2}
              \<and> class_statement oid name ancs clsdict
                  = Inl (InvalidImplementation
                    (newline @ ''class '' @ name
                     @ '' received conflicting default implementations:'' @ pre
                     @ newline @ newline
                     @ ''The following interfaces provided default implementations for ''
                     @ [CHR 0x27] @ m @ [CHR 0x27] @ '':'' @ newline
                     @ join newline (sort [''  - '' @ iface_name I1, ''  - '' @ iface_name I2])
                     @ post))))"
proof (intro conjI allI impI)
  from assms(1) obtain err where "ImplementsMeta_new oid name ancs clsdict [] = Inl err"
    by blast
  from class_statement_Inl [OF this]
  show "\<exists>err. class_statement oid name ancs clsdict = Inl err" by blast
next
  fix r1 r2
  assume v1: "verify I1 T = Inr r1" and v2: "verify I2 T = Inr r2"
  from assms(2) have "(A = I1 \<and> B = I2) \<or> (A = I2 \<and> B = I1)"
    by (auto simp: doubleton_eq_iff)
  with v1 v2 have "\<exists>rA rB. verify A T = Inr rA \<and> verify B T = Inr rB" by auto
  with assms(1) obtain conflicts where
    c: "ImplementsMeta_new oid name ancs clsdict [] = Inl (conflicting_defaults name conflicts)"
    and g: "dict_get conflicts m = Some [A, B]" by blast
  have st: "set [A, B] = {I1, I2}" using assms(2) by simp
  from conflicting_defaults_text [OF g assms(2), of name] obtain pre post where
    t: "conflicting_defaults name conflicts
           = InvalidImplementation
               (newline @ ''class '' @ name
                @ '' received conflicting default implementations:'' @ pre
                @ newline @ newline
                @ ''The following interfaces provided default implementations for ''
                @ [CHR 0x27] @ m @ [CHR 0x27] @ '':'' @ newline
                @ join newline (sort [''  - '' @ iface_name I1, ''  - '' @ iface_name I2])
                @ post)" by blast
  have cs: "class_statement oid name ancs clsdict = Inl (conflicting_defaults name conflicts)"
    by (rule class_statement_Inl [OF c])
  from cs t have "class_statement oid name ancs clsdict
                  = Inl (InvalidImplementation
                    (newline @ ''class '' @ name
                     @ '' received conflicting default implementations:'' @ pre
                     @ newline @ newline
                     @ ''The following interfaces provided default implementations for ''
                     @ [CHR 0x27] @ m @ [CHR 0x27] @ '':'' @ newline
                     @ join newline (sort [''  - '' @ iface_name I1, ''  - '' @ iface_name I2])
                     @ post))" by simp
  with cs g st
  show "\<exists>conflicts providers pre post.
                class_statement oid name ancs clsdict
                  = Inl (conflicting_defaults name conflicts)
              \<and> dict_get conflicts m = Some providers \<and> set providers = {I1, I2}
              \<and> class_statement oid name ancs clsdict
                  = Inl (InvalidImplementation
                    (newline @ ''class '' @ name
                     @ '' received conflicting default implementations:'' @ pre
                     @ newline @ newline
                     @ ''The following interfaces provided default implementations for ''
                     @ [CHR 0x27] @ m @ [CHR 0x27] @ '':'' @ newline
                     @ join newline (sort [''  - '' @ iface_name I1, ''  - '' @ iface_name I2])
                     @ post))"
    by blast
qed

text \<open>
  C1, amended: two distinct interfaces both provide a default for \<open>m\<close>, and a class
  that lacks \<open>m\<close> is defined under \<open>implements(I1, I2)\<close>. The class statement fails,
  whether the two defaults are different or one and the same object. When the class
  passes \<open>verify\<close> for each of the two interfaces, what is raised is the diagnostic of
  conflicting defaults: an \<open>InvalidImplementation\<close> whose message names the class and has,
  for \<open>m\<close>, the section that lists the two interfaces by name, in sorted order.
\<close>

theorem shared_default_name_fails:
  assumes "InterfaceMeta_new id1 n1 bases1 body1 = Inr I1"
    and "InterfaceMeta_new id2 n2 bases2 body2 = Inr I2"
    and "I1 \<noteq> I2"
    and "dict_get (defaults I1) m = Some d1" and "dict_get (defaults I2) m = Some d2"
    and "implements (object_type vs) oid0 [IfaceObj I1, IfaceObj I2]
           (memo_after (object_type vs) calls []) = (Inr base, memo1)"
    and "static_get_type_attr (PyType oid name clsdict (mro base) Meta_ImplementsMeta None) m
           = Inl e"
  shows "(\<exists>err. class_statement oid name (mro base) clsdict = Inl err)
       \<and> (\<forall>r1 r2.
             verify I1 (PyType oid name clsdict (mro base) Meta_ImplementsMeta None) = Inr r1
         \<longrightarrow> verify I2 (PyType oid name clsdict (mro base) Meta_ImplementsMeta None) = Inr r2
         \<longrightarrow> (\<exists>conflicts providers pre post.
                class_statement oid name (mro base) clsdict
                  = Inl (conflicting_defaults name conflicts)
              \<and> dict_get conflicts m = Some providers \<and> set providers = {I1, I2}
              \<and> class_statement oid name (mro base) clsdict
                  = Inl (InvalidImplementation
                    (newline @ ''class '' @ name
                     @ '' received conflicting default implementations:'' @ pre
                     @ newline @ newline
                     @ ''The following interfaces provided default implementations for ''
                     @ [CHR 0x27] @ m @ [CHR 0x27] @ '':'' @ newline
                     @ join newline (sort [''  - '' @ iface_name I1, ''  - '' @ iface_name I2])
                     @ post))))"
proof -
  let ?obj = "object_type vs"
  from InterfaceMeta_new_defaults [OF assms(1,4)] obtain i1 where d1: "d1 = Default i1" ..
  from InterfaceMeta_new_defaults [OF assms(2,5)] obtain i2 where d2: "d2 = Default i2" ..
  have dd1: "dict_get (defaults I1) m = Some (Default i1)" using assms(4) d1 by simp
  have dd2: "dict_get (defaults I2) m = Some (Default i2)" using assms(5) d2 by simp
  from assms(4) have "m \<in> set (keys (defaults I1))"
    using dict_get_None_iff [of "defaults I1" m] by auto
  with InterfaceMeta_new_keys [OF assms(1)] have s1: "m \<in> set (keys (signatures I1))" by auto
  from assms(5) have "m \<in> set (keys (defaults I2))"
    using dict_get_None_iff [of "defaults I2" m] by auto
  with InterfaceMeta_new_keys [OF assms(2)] have s2: "m \<in> set (keys (signatures I2))" by auto
  have "memo_ok ?obj (memo_after ?obj calls [])" by (rule memo_ok_after [OF memo_ok_empty])
  from implements_result_ok [OF this assms(6)] obtain k where
    k: "set k = {IfaceObj I1, IfaceObj I2}" and ok: "memo_entry_ok ?obj k base" by auto
  from ok have "distinct k" by (simp add: memo_entry_ok_def)
  from two_element_list [OF this k] assms(3)
  have "k = [IfaceObj I1, IfaceObj I2] \<or> k = [IfaceObj I2, IfaceObj I1]" by simp
  then show ?thesis
  proof
    assume "k = [IfaceObj I1, IfaceObj I2]"
    with ok have "memo_entry_ok ?obj [IfaceObj I1, IfaceObj I2] base" by simp
    from interfaces_of_subclass [OF this, of oid name clsdict] assms(3)
    have "interfaces (PyType oid name clsdict (mro base) Meta_ImplementsMeta None)
            = Inr [IfaceObj I1, IfaceObj I2]" by simp
    from conflict_two_interfaces [OF this s1 s2 dd1 dd2 assms(7)]
    show ?thesis by (rule conflict_either_order) simp
  next
    assume "k = [IfaceObj I2, IfaceObj I1]"
    with ok have "memo_entry_ok ?obj [IfaceObj I2, IfaceObj I1] base" by simp
    from interfaces_of_subclass [OF this, of oid name clsdict] assms(3)
    have "interfaces (PyType oid name clsdict (mro base) Meta_ImplementsMeta None)
            = Inr [IfaceObj I2, IfaceObj I1]" by simp
    from conflict_two_interfaces [OF this s2 s1 dd2 dd1 assms(7)]
    show ?thesis by (rule conflict_either_order) (simp add: insert_commute)
  qed
qed

lemma Shape_neq_Named: "Shape \<noteq> Named"
  by (simp add: Shape_def Named_def)

lemma implements_Shape_Named:
  "implements object_example 100 [IfaceObj Shape, IfaceObj Named] []
     = (Inr Implements_Named_Shape,
        [([IfaceObj Shape, IfaceObj Named], Implements_Named_Shape)])"
  by code_simp

lemma class_Card_conflict:
  "class_statement 200 ''Card'' (mro Implements_Named_Shape) Card_body
     = Inl (InvalidImplementation
              (newline @ ''class Card received conflicting default implementations:''
               @ newline @ newline
               @ ''The following interfaces provided default implementations for 'describe':''
               @ newline @ ''  - Named'' @ newline @ ''  - Shape''))"
  by code_simp

lemma Card_lacks_describe:
  "static_get_type_attr
     (PyType 200 ''Card'' Card_body (mro Implements_Named_Shape) Meta_ImplementsMeta None)
     ''describe'' = Inl (AttributeError ''describe'')"
  by code_simp

lemma InterfaceMeta_new_Named: "InterfaceMeta_new 2 ''Named'' [] Named_body = Inr Named"
  by code_simp

text \<open>
  C1, as the claim states it, fails: \<open>Shape\<close> and \<open>Named\<close> provide the same default
  object for \<open>describe\<close>, \<open>Card\<close> lacks \<open>describe\<close> and passes \<open>verify\<close> for both,
  and the class statement raises the diagnostic of conflicting defaults.
\<close>

theorem same_default_object_counterexample:
  "InterfaceMeta_new 1 ''Shape'' [] Shape_body = Inr Shape
   \<and> InterfaceMeta_new 2 ''Named'' [] Named_body = Inr Named
   \<and> dict_get (defaults Shape) ''describe'' = Some (Default describe_impl)
   \<and> dict_get (defaults Named) ''describe'' = Some (Default describe_impl)
   \<and> implements object_example 100 [IfaceObj Shape, IfaceObj Named] []
       = (Inr Implements_Named_Shape,
          [([IfaceObj Shape, IfaceObj Named], Implements_Named_Shape)])
   \<and> static_get_type_attr
         (PyType 200 ''Card'' Card_body (mro Implements_Named_Shape) Meta_ImplementsMeta None)
         ''describe'' = Inl (AttributeError ''describe'')
   \<and> verify Shape
         (PyType 200 ''Card'' Card_body (mro Implements_Named_Shape) Meta_ImplementsMeta None)
       = Inr [(''describe'', describe_impl)]
   \<and> verify Named
         (PyType 200 ''Card'' Card_body (mro Implements_Named_Shape) Meta_ImplementsMeta None)
       = Inr [(''describe'', describe_impl)]
   \<and> class_statement 200 ''Card'' (mro Implements_Named_Shape) Card_body
       = Inl (InvalidImplementation
              (newline @ ''class Card received conflicting default implementations:''
               @ newline @ newline
               @ ''The following interfaces provided default implementations for 'describe':''
               @ newline @ ''  - Named'' @ newline @ ''  - Shape''))"
  by code_simp

theorem shared_default_name_fails_witness:
  "InterfaceMeta_new 1 ''Shape'' [] Shape_body = Inr Shape
   \<and> InterfaceMeta_new 2 ''Named'' [] Named_body = Inr Named
   \<and> Shape \<noteq> Named
   \<and> dict_get (defaults Shape) ''describe'' = Some (Default describe_impl)
   \<and> dict_get (defaults Named) ''describe'' = Some (Default describe_impl)
   \<and> implements object_example 100 [IfaceObj Shape, IfaceObj Named]
         (memo_after object_example [] [])
       = (Inr Implements_Named_Shape,
          [([IfaceObj Shape, IfaceObj Named], Implements_Named_Shape)])
   \<and> static_get_type_attr
         (PyType 200 ''Card'' Card_body (mro Implements_Named_Shape) Meta_ImplementsMeta None)
         ''describe'' = Inl (AttributeError ''describe'')
   \<and> verify Shape
         (PyType 200 ''Card'' Card_body (mro Implements_Named_Shape) Meta_ImplementsMeta None)
       = Inr [(''describe'', describe_impl)]
   \<and> verify Named
         (PyType 200 ''Card'' Card_body (mro Implements_Named_Shape) Meta_ImplementsMeta None)
       = Inr [(''describe'', describe_impl)]
   \<and> (\<exists>conflicts providers pre post.
          class_statement 200 ''Card'' (mro Implements_Named_Shape) Card_body
            = Inl (conflicting_defaults ''Card'' conflicts)
        \<and> dict_get conflicts ''describe'' = Some providers
        \<and> set providers = {Shape, Named}
        \<and> class_statement 200 ''Card'' (mro Implements_Named_Shape) Card_body
            = Inl (InvalidImplementation
                    (newline @ ''class '' @ ''Card''
                     @ '' received conflicting default implementations:'' @ pre
                     @ newline @ newline
                     @ ''The following interfaces provided default implementations for ''
                     @ [CHR 0x27] @ ''describe'' @ [CHR 0x27] @ '':'' @ newline
                     @ join newline (sort [''  - '' @ iface_name Shape,
                                           ''  - '' @ iface_name Named])
                     @ post)))
   \<and> class_statement 200 ''Card'' (mro Implements_Named_Shape) Card_body
       = Inl (InvalidImplementation
              (newline @ ''class Card received conflicting default implementations:''
               @ newline @ newline
               @ ''The following interfaces provided default implementations for 'describe':''
               @ newline @ ''  - Named'' @ newline @ ''  - Shape''))"
proof -
  let ?T = "PyType 200 ''Card'' Card_body (mro Implements_Named_Shape) Meta_ImplementsMeta None"
  have d1: "dict_get (defaults Shape) ''describe'' = Some (Default describe_impl)"
    by code_simp
  have d2: "dict_get (defaults Named) ''describe'' = Some (Default describe_impl)"
    by code_simp
  have i: "implements (object_type [(''__init__'', Plain ''wrapper_descriptor''),
                                     (''__repr__'', Plain ''wrapper_descriptor'')])
             100 [IfaceObj Shape, IfaceObj Named]
             (memo_after (object_type [(''__init__'', Plain ''wrapper_descriptor''),
                                       (''__repr__'', Plain ''wrapper_descriptor'')]) [] [])
           = (Inr Implements_Named_Shape,
              [([IfaceObj Shape, IfaceObj Named], Implements_Named_Shape)])"
    using implements_Shape_Named by (simp add: object_example_def)
  have l: "static_get_type_attr ?T ''describe'' = Inl (AttributeError ''describe'')"
    by (rule Card_lacks_describe)
  have v1: "verify Shape ?T = Inr [(''describe'', describe_impl)]" by code_simp
  have v2: "verify Named ?T = Inr [(''describe'', describe_impl)]" by code_simp
  from shared_default_name_fails
         [OF InterfaceMeta_new_Shape InterfaceMeta_new_Named Shape_neq_Named d1 d2 i l]
    v1 v2
  have "\<exists>conflicts providers pre post.
          class_statement 200 ''Card'' (mro Implements_Named_Shape) Card_body
            = Inl (conflicting_defaults ''Card'' conflicts)
        \<and> dict_get conflicts ''describe'' = Some providers
        \<and> set providers = {Shape, Named}
        \<and> class_statement 200 ''Card'' (mro Implements_Named_Shape) Card_body
            = Inl (InvalidImplementation
                    (newline @ ''class '' @ ''Card''
                     @ '' received conflicting default implementations:'' @ pre
                     @ newline @ newline
                     @ ''The following interfaces provided default implementations for ''
                     @ [CHR 0x27] @ ''describe'' @ [CHR 0x27] @ '':'' @ newline
                     @ join newline (sort [''  - '' @ iface_name Shape,
                                           ''  - '' @ iface_name Named])
                     @ post))"
    by blast
  moreover have "implements object_example 100 [IfaceObj Shape, IfaceObj Named]
         (memo_after object_example [] [])
       = (Inr Implements_Named_Shape,
          [([IfaceObj Shape, IfaceObj Named], Implements_Named_Shape)])"
    using implements_Shape_Named by simp
  ultimately show ?thesis
    using InterfaceMeta_new_Shape InterfaceMeta_new_Named Shape_neq_Named d1 d2 l v1 v2
      class_Card_conflict
    by - (intro conjI; assumption)
qed

theorem implements_order_independent_witness:
  "set [IfaceObj Shape, IfaceObj Named] = set [IfaceObj Named, IfaceObj Shape]
   \<and> list_all is_interface_obj [IfaceObj Shape, IfaceObj Named]
   \<and> implements object_example 100 [IfaceObj Shape, IfaceObj Named] []
       = (Inr Implements_Named_Shape,
          [([IfaceObj Shape, IfaceObj Named], Implements_Named_Shape)])
   \<and> implements object_example 101 [IfaceObj Named, IfaceObj Shape]
         (memo_after object_example [(102, [IfaceObj Shape])]
            [([IfaceObj Shape, IfaceObj Named], Implements_Named_Shape)])
       = (Inr Implements_Named_Shape,
          memo_after object_example [(102, [IfaceObj Shape])]
            [([IfaceObj Shape, IfaceObj Named], Implements_Named_Shape)])"
proof -
  have s: "set [IfaceObj Shape, IfaceObj Named] = set [IfaceObj Named, IfaceObj Shape]"
    by auto
  have ne: "[IfaceObj Shape, IfaceObj Named] \<noteq> []" by simp
  have ok: "list_all is_interface_obj [IfaceObj Shape, IfaceObj Named]" by simp
  from implements_order_independent [OF s ne ok implements_Shape_Named,
         of 101 "[(102, [IfaceObj Shape])]"]
  have "implements object_example 101 [IfaceObj Named, IfaceObj Shape]
         (memo_after object_example [(102, [IfaceObj Shape])]
            [([IfaceObj Shape, IfaceObj Named], Implements_Named_Shape)])
       = (Inr Implements_Named_Shape,
          memo_after object_example [(102, [IfaceObj Shape])]
            [([IfaceObj Shape, IfaceObj Named], Implements_Named_Shape)])"
    by simp
  with s ok implements_Shape_Named show ?thesis by simp
qed

theorem implements_repeated_argument_witness:
  "\<exists>t. implements object_example 100 [IfaceObj Shape] [] = (Inr t, [([IfaceObj Shape], t)])
      \<and> type_id t = 100
      \<and> implements object_example 101 [IfaceObj Shape, IfaceObj Shape] [([IfaceObj Shape], t)]
          = (Inr t, [([IfaceObj Shape], t)])
      \<and> implements object_example 100 [IfaceObj Shape, IfaceObj Shape] []
          = implements object_example 100 [IfaceObj Shape] []"
proof -
  obtain r memo1 where c: "implements object_example 100 [IfaceObj Shape] [] = (r, memo1)"
    by (cases "implements object_example 100 [IfaceObj Shape] []")
  have m: "memo_get [] (frozenset [IfaceObj Shape]) = None" by (simp add: memo_get_def)
  from implements_miss [OF _ m, of object_example 100] c
  obtain t where t: "r = Inr t" "memo1 = [([IfaceObj Shape], t)]" "type_id t = 100"
    by (auto simp: frozenset_def)
  from implements_repeated_argument
         [of object_example 100 0 Shape "[]" r memo1 100 1 "[]" 101 1 "[]"] c t
  have "implements object_example 100 [IfaceObj Shape, IfaceObj Shape] []
          = implements object_example 100 [IfaceObj Shape] []
      \<and> implements object_example 101 [IfaceObj Shape, IfaceObj Shape] [([IfaceObj Shape], t)]
          = (Inr t, [([IfaceObj Shape], t)])"
    by (simp add: numeral_2_eq_2)
  with c t show ?thesis by simp
qed

theorem implements_raises_or_returns_witness:
  "fst (implements object_example 100 [] (memo_after object_example [(99, [IfaceObj Named])] []))
     = Inl (TypeError ''implements() requires at least one interface'')
   \<and> fst (implements object_example 100 [IfaceObj Shape, ClassObj ''<class 'int'>'']
            (memo_after object_example [(99, [IfaceObj Named])] []))
     = Inl (TypeError ''implements() expected an Interface, but got <class 'int'>.'')
   \<and> (\<exists>t. fst (implements object_example 100 [IfaceObj Shape]
                  (memo_after object_example [(99, [IfaceObj Named])] [])) = Inr t)"
proof -
  have a: "fst (implements object_example 100 [IfaceObj Shape, ClassObj ''<class 'int'>'']
            (memo_after object_example [(99, [IfaceObj Named])] []))
     = Inl (TypeError ''implements() expected an Interface, but got <class 'int'>.'')"
    by code_simp
  from implements_raises_or_returns [of "[]" object_example 100 "[(99, [IfaceObj Named])]"]
    implements_raises_or_returns [of "[IfaceObj Shape]" object_example 100 "[(99, [IfaceObj Named])]"]
    a
  show ?thesis by simp
qed

end
